theory Spec2Isabelle
  imports Main
begin

section \<open>Python values and library calls used by maddpg.py\<close>

text \<open>
  The module raises no exception of its own; every failure comes from a library call or
  from indexing.  \<open>ValueError\<close> is what \<^verbatim>\<open>random.sample\<close>, \<^verbatim>\<open>np.vstack\<close>
  and \<^verbatim>\<open>deque(maxlen=...)\<close> raise, \<open>IndexError\<close> is what \<^verbatim>\<open>xs[i]\<close> raises.
\<close>

datatype error = ValueError | IndexError

text \<open>\<^verbatim>\<open>xs[i]\<close> for an index produced by \<^verbatim>\<open>range\<close>, so never negative.\<close>

definition getitem :: "'x list \<Rightarrow> nat \<Rightarrow> error + 'x" where
  "getitem xs i = (if i < length xs then Inr (xs ! i) else Inl IndexError)"

definition bind_err :: "error + 'x \<Rightarrow> ('x \<Rightarrow> error + 'y) \<Rightarrow> error + 'y" where
  "bind_err r f = (case r of Inl e \<Rightarrow> Inl e | Inr x \<Rightarrow> f x)"

subsection \<open>Arrays\<close>

text \<open>
  A state, a next state and an action are vectors of numbers of some type \<open>'x\<close>, a reward
  is one such number and a done flag is a boolean.  \<^verbatim>\<open>np.vstack(rows)\<close> makes each vector
  one row of a two-dimensional array and each scalar a row of one cell.  It raises
  ValueError on an empty list (need at least one array to concatenate) and on rows of
  different lengths (the dimensions other than the concatenation axis must match).
\<close>

definition same_width :: "'x list list \<Rightarrow> bool" where
  "same_width rows = (\<forall>r \<in> set rows. length r = length (hd rows))"

definition vstack :: "'x list list \<Rightarrow> error + 'x list list" where
  "vstack rows =
     (if rows = [] then Inl ValueError
      else if same_width rows then Inr rows
      else Inl ValueError)"

text \<open>
  \<^verbatim>\<open>torch.from_numpy(...).float()\<close> converts every cell to a 32-bit float, which changes a
  number that such a float cannot represent.  Floats are not modelled: the conversion is
  a parameter, a function from the numbers \<open>'x\<close> to a type \<open>'f\<close> of floats, together with
  the floats of the two values 0 and 1 that \<^verbatim>\<open>astype(np.uint8)\<close> makes of a done flag.
\<close>

record ('x, 'f) torch_module =
  float32 :: "'x \<Rightarrow> 'f"
  float32_of_uint8 :: "nat \<Rightarrow> 'f"

subsection \<open>The module-level generator of \<^verbatim>\<open>random\<close>\<close>

text \<open>
  \<^verbatim>\<open>random.seed\<close> and \<^verbatim>\<open>random.sample\<close> act on one generator shared by the whole
  process.  The generator and the sampling algorithm belong to the Python runtime, so
  they are parameters: a state type \<open>'g\<close>, the state an integer seed produces, and the
  function \<open>pick\<close> that, from a generator state, a population size \<open>n\<close> and a sample size
  \<open>k\<close>, gives the positions of the population that \<^verbatim>\<open>random.sample\<close> returns, in the
  order of the returned list, and the generator state it leaves.
\<close>

record 'g random_module =
  seed_state :: "int \<Rightarrow> 'g"
  pick :: "'g \<Rightarrow> nat \<Rightarrow> nat \<Rightarrow> nat list \<times> 'g"

text \<open>
  What the library documents of \<^verbatim>\<open>random.sample\<close>: for \<open>k \<le> n\<close> it returns \<open>k\<close>
  elements taken at \<open>k\<close> different positions of the population.
\<close>

definition sample_contract :: "'g random_module \<Rightarrow> bool" where
  "sample_contract R =
     (\<forall>g n k. k \<le> n \<longrightarrow>
        length (fst (pick R g n k)) = k \<and> distinct (fst (pick R g n k)) \<and>
        (\<forall>p \<in> set (fst (pick R g n k)). p < n))"

text \<open>
  The process: the shared generator state and a log of the calls the coordinator makes
  (the log is not a variable of the source; it records which calls happen, in order).
\<close>

record ('g, 'c) process =
  random_state :: 'g
  calls :: "'c list"

text \<open>
  \<^verbatim>\<open>random.seed(a)\<close>.  With \<^verbatim>\<open>a = None\<close> the library seeds from what the operating
  system delivers at that call; this value is the argument \<open>entropy\<close>, given anew at every
  call.
\<close>

definition random_seed ::
  "'g random_module \<Rightarrow> int option \<Rightarrow> int \<Rightarrow> ('g, 'c) process \<Rightarrow> ('g, 'c) process" where
  "random_seed R a entropy w =
     w\<lparr>random_state := seed_state R (case a of None \<Rightarrow> entropy | Some s \<Rightarrow> s)\<rparr>"

text \<open>
  \<^verbatim>\<open>random.sample(population, k)\<close>: ValueError unless \<open>0 \<le> k \<le> len(population)\<close>, raised
  before the generator is used; otherwise the elements at the positions picked.
\<close>

definition random_sample ::
  "'g random_module \<Rightarrow> 'y list \<Rightarrow> int \<Rightarrow> 'g \<Rightarrow> (error + 'y list) \<times> 'g" where
  "random_sample R population k g =
     (if \<not> (0 \<le> k \<and> k \<le> int (length population)) then (Inl ValueError, g)
      else (case pick R g (length population) (nat k) of
              (ps, g') \<Rightarrow> (Inr (map (\<lambda>p. population ! p) ps), g')))"

section \<open>ReplayBuffer\<close>

record 'x Experience =
  state :: "'x list"
  action :: "'x list"
  reward :: 'x
  next_state :: "'x list"
  done_flag :: bool

text \<open>
  A batch: the five arrays \<^verbatim>\<open>states, actions, rewards, next_states, dones\<close>, each a
  list of rows, one row per sampled experience.
\<close>

type_synonym 'f batch =
  "'f list list \<times> 'f list list \<times> 'f list list \<times> 'f list list \<times> 'f list list"

text \<open>
  \<^verbatim>\<open>self.seed = random.seed(seed)\<close> stores None, the return value of \<^verbatim>\<open>random.seed\<close>;
  \<open>maxlen\<close> is the bound of the deque \<open>replay_memory\<close>.
\<close>

record 'x ReplayBuffer =
  seed :: "unit option"
  action_size :: int
  maxlen :: nat
  replay_memory :: "'x Experience list"
  rb_batch_size :: int

text \<open>
  The constructor seeds the shared generator first and then builds the deque;
  \<^verbatim>\<open>deque(maxlen=n)\<close> raises ValueError for a negative \<open>n\<close>.
\<close>

definition ReplayBuffer_init ::
  "'g random_module \<Rightarrow> int \<Rightarrow> int \<Rightarrow> int \<Rightarrow> int option \<Rightarrow> int \<Rightarrow> ('g, 'c) process \<Rightarrow>
     (error + 'x ReplayBuffer) \<times> ('g, 'c) process" where
  "ReplayBuffer_init R asz buffer_size bsz sd entropy w =
     (let w' = random_seed R sd entropy w in
      if buffer_size < 0 then (Inl ValueError, w')
      else (Inr \<lparr>seed = None, action_size = asz, maxlen = nat buffer_size,
                 replay_memory = [], rb_batch_size = bsz\<rparr>, w'))"

text \<open>\<^verbatim>\<open>deque.append\<close> on a bounded deque: append, then drop from the left if too long.\<close>

definition deque_append :: "nat \<Rightarrow> 'y list \<Rightarrow> 'y \<Rightarrow> 'y list" where
  "deque_append n xs x = (let ys = xs @ [x] in if n < length ys then tl ys else ys)"

definition add ::
  "'x ReplayBuffer \<Rightarrow> 'x list \<Rightarrow> 'x list \<Rightarrow> 'x \<Rightarrow> 'x list \<Rightarrow> bool \<Rightarrow> 'x ReplayBuffer" where
  "add rb s a r s' d =
     (let experience_tuple =
            \<lparr>state = s, action = a, reward = r, next_state = s', done_flag = d\<rparr>
      in rb\<lparr>replay_memory := deque_append (maxlen rb) (replay_memory rb) experience_tuple\<rparr>)"

definition len :: "'x ReplayBuffer \<Rightarrow> int" where
  "len rb = int (length (replay_memory rb))"

text \<open>
  The five arrays of a list of experiences, built in the order of the source: each
  column is stacked, then converted.  The source filters \<^verbatim>\<open>e is not None\<close>; the deque
  holds only tuples built by \<open>add\<close>, so the filter keeps every element.
\<close>

definition columns ::
  "('x, 'f) torch_module \<Rightarrow> 'x Experience list \<Rightarrow> error + 'f batch" where
  "columns T experiences =
     bind_err (vstack (map state experiences)) (\<lambda>states.
     bind_err (vstack (map action experiences)) (\<lambda>actions.
     bind_err (vstack (map (\<lambda>e. [reward e]) experiences)) (\<lambda>rewards.
     bind_err (vstack (map next_state experiences)) (\<lambda>next_states.
     bind_err (vstack (map (\<lambda>e. [done_flag e]) experiences)) (\<lambda>dones.
       Inr (map (map (float32 T)) states,
            map (map (float32 T)) actions,
            map (map (float32 T)) rewards,
            map (map (float32 T)) next_states,
            map (map (\<lambda>d. float32_of_uint8 T (if d then 1 else 0))) dones))))))"

text \<open>
  \<open>sample\<close> returns the result, the buffer as the call leaves it and the process with
  the generator advanced.
\<close>

definition sample ::
  "'g random_module \<Rightarrow> ('x, 'f) torch_module \<Rightarrow> 'x ReplayBuffer \<Rightarrow> ('g, 'c) process \<Rightarrow>
     (error + 'f batch) \<times> 'x ReplayBuffer \<times> ('g, 'c) process" where
  "sample R T rb w =
     (case random_sample R (replay_memory rb) (rb_batch_size rb) (random_state w) of
        (Inl e, g') \<Rightarrow> (Inl e, rb, w\<lparr>random_state := g'\<rparr>)
      | (Inr experiences, g') \<Rightarrow> (columns T experiences, rb, w\<lparr>random_state := g'\<rparr>))"

section \<open>MADDPG\<close>

text \<open>
  The class \<^verbatim>\<open>Agent\<close> of module \<^verbatim>\<open>ddpg\<close> is not among the sources.  The coordinator
  uses its constructor and its methods \<^verbatim>\<open>act\<close> and \<^verbatim>\<open>learn\<close> only, so they are
  parameters: an agent is a value of type \<open>'ag\<close>, a method returns the agent as the call
  leaves it, and the methods return normally.
\<close>

record ('x, 'f, 'gm, 'ag) Agent_class =
  Agent_init :: "int \<Rightarrow> int \<Rightarrow> int option \<Rightarrow> 'ag"
  Agent_act :: "'ag \<Rightarrow> 'x list \<Rightarrow> bool \<Rightarrow> 'x list \<times> 'ag"
  Agent_learn :: "'ag \<Rightarrow> 'f batch \<Rightarrow> 'gm \<Rightarrow> 'ag"

record ('x, 'gm, 'ag) MADDPG =
  num_agents :: int
  batch_size :: int
  gamma :: 'gm
  minsamples_before_train :: int
  agents :: "'ag list"
  memory :: "'x ReplayBuffer"

text \<open>The calls the log records: buffer \<open>add\<close> and \<open>sample\<close>, \<open>learn\<close> of the
  coordinator, and \<open>learn\<close> of the agent at a position of the agent list.\<close>

datatype ('x, 'f) call =
    Call_add "'x Experience"
  | Call_sample "error + 'f batch"
  | Call_learn "'f batch"
  | Call_agent_learn nat "'f batch"

type_synonym ('x, 'f, 'g) proc = "('g, ('x, 'f) call) process"

definition log :: "'c \<Rightarrow> ('g, 'c) process \<Rightarrow> ('g, 'c) process" where
  "log c w = w\<lparr>calls := calls w @ [c]\<rparr>"

definition MADDPG_init ::
  "('x, 'f, 'gm, 'ag) Agent_class \<Rightarrow> 'g random_module \<Rightarrow>
     int \<Rightarrow> int \<Rightarrow> int \<Rightarrow> int option \<Rightarrow> int \<Rightarrow> int \<Rightarrow> 'gm \<Rightarrow> int \<Rightarrow> int \<Rightarrow> ('g, 'c) process \<Rightarrow>
     (error + ('x, 'gm, 'ag) MADDPG) \<times> ('g, 'c) process" where
  "MADDPG_init A R n state_size asz sd buffer_size bsz gm minsamples entropy w =
     (let ags = map (\<lambda>_. Agent_init A state_size asz sd) [0..<nat n] in
      case ReplayBuffer_init R asz buffer_size bsz sd entropy w of
        (Inl e, w') \<Rightarrow> (Inl e, w')
      | (Inr rb, w') \<Rightarrow>
          (Inr \<lparr>num_agents = n, batch_size = bsz, gamma = gm,
                 minsamples_before_train = minsamples, agents = ags, memory = rb\<rparr>, w'))"

subsection \<open>act\<close>

text \<open>The loop over \<^verbatim>\<open>zip(states, self.agents)\<close>: it ends with the shorter list.\<close>

fun act_loop ::
  "('x, 'f, 'gm, 'ag) Agent_class \<Rightarrow> ('x list \<times> 'ag) list \<Rightarrow> bool \<Rightarrow>
     'x list list \<times> 'ag list" where
  "act_loop A [] add_noise = ([], [])"
| "act_loop A ((s, agent) # ps) add_noise =
     (case Agent_act A agent s add_noise of (a, agent') \<Rightarrow>
        (case act_loop A ps add_noise of (actions, ags) \<Rightarrow> (a # actions, agent' # ags)))"

definition act ::
  "('x, 'f, 'gm, 'ag) Agent_class \<Rightarrow> ('x, 'gm, 'ag) MADDPG \<Rightarrow> 'x list list \<Rightarrow> bool \<Rightarrow>
     'x list list \<times> ('x, 'gm, 'ag) MADDPG" where
  "act A m states add_noise =
     (case act_loop A (zip states (agents m)) add_noise of
        (actions, ags) \<Rightarrow> (actions, m\<lparr>agents := ags @ drop (length ags) (agents m)\<rparr>))"

subsection \<open>learn\<close>

fun learn_loop ::
  "('x, 'f, 'gm, 'ag) Agent_class \<Rightarrow> 'ag list \<Rightarrow> nat \<Rightarrow> 'f batch \<Rightarrow> 'gm \<Rightarrow>
     ('x, 'f, 'g) proc \<Rightarrow> 'ag list \<times> ('x, 'f, 'g) proc" where
  "learn_loop A [] j experiences gm w = ([], w)"
| "learn_loop A (agent # ags) j experiences gm w =
     (case learn_loop A ags (Suc j) experiences gm (log (Call_agent_learn j experiences) w) of
        (ags', w') \<Rightarrow> (Agent_learn A agent experiences gm # ags', w'))"

definition learn ::
  "('x, 'f, 'gm, 'ag) Agent_class \<Rightarrow> ('x, 'gm, 'ag) MADDPG \<Rightarrow> 'f batch \<Rightarrow>
     'gm \<Rightarrow> ('x, 'f, 'g) proc \<Rightarrow> ('x, 'gm, 'ag) MADDPG \<times> ('x, 'f, 'g) proc" where
  "learn A m experiences gm w =
     (case learn_loop A (agents m) 0 experiences gm (log (Call_learn experiences) w) of
        (ags, w') \<Rightarrow> (m\<lparr>agents := ags\<rparr>, w'))"

subsection \<open>step\<close>

text \<open>
  A call that raises has already changed the coordinator and the process, so \<open>step\<close>
  returns both together with the exception, if any.
\<close>

definition step_args ::
  "'x list list \<Rightarrow> 'x list list \<Rightarrow> 'x list \<Rightarrow> 'x list list \<Rightarrow> bool list \<Rightarrow> nat \<Rightarrow>
     error + 'x Experience" where
  "step_args states actions rewards next_states dones i =
     bind_err (getitem states i) (\<lambda>s.
     bind_err (getitem actions i) (\<lambda>a.
     bind_err (getitem rewards i) (\<lambda>r.
     bind_err (getitem next_states i) (\<lambda>s'.
     bind_err (getitem dones i) (\<lambda>d.
       Inr \<lparr>state = s, action = a, reward = r, next_state = s', done_flag = d\<rparr>)))))"

text \<open>\<^verbatim>\<open>for i in range(self.num_agents): self.memory.add(states[i], ...)\<close>\<close>

fun save_loop ::
  "nat list \<Rightarrow> 'x list list \<Rightarrow> 'x list list \<Rightarrow> 'x list \<Rightarrow> 'x list list \<Rightarrow> bool list \<Rightarrow>
     'x ReplayBuffer \<Rightarrow> ('x, 'f, 'g) proc \<Rightarrow>
     error option \<times> 'x ReplayBuffer \<times> ('x, 'f, 'g) proc" where
  "save_loop [] states actions rewards next_states dones rb w = (None, rb, w)"
| "save_loop (i # is) states actions rewards next_states dones rb w =
     (case step_args states actions rewards next_states dones i of
        Inl e \<Rightarrow> (Some e, rb, w)
      | Inr e \<Rightarrow>
          save_loop is states actions rewards next_states dones
            (add rb (state e) (action e) (reward e) (next_state e) (done_flag e))
            (log (Call_add e) w))"

text \<open>
  \<^verbatim>\<open>
      for _ in range(self.num_agents):
          experience = self.memory.sample()
          self.learn(experience, gamma=self.gamma)
  \<close>
\<close>

fun train_loop ::
  "('x, 'f, 'gm, 'ag) Agent_class \<Rightarrow> 'g random_module \<Rightarrow> ('x, 'f) torch_module \<Rightarrow> nat \<Rightarrow>
     ('x, 'gm, 'ag) MADDPG \<Rightarrow> ('x, 'f, 'g) proc \<Rightarrow>
     error option \<times> ('x, 'gm, 'ag) MADDPG \<times> ('x, 'f, 'g) proc" where
  "train_loop A R T 0 m w = (None, m, w)"
| "train_loop A R T (Suc n) m w =
     (case sample R T (memory m) w of
        (res, rb, w1) \<Rightarrow>
          (case res of
             Inl e \<Rightarrow> (Some e, m\<lparr>memory := rb\<rparr>, log (Call_sample res) w1)
           | Inr experience \<Rightarrow>
               (case learn A (m\<lparr>memory := rb\<rparr>) experience (gamma m) (log (Call_sample res) w1) of
                  (m', w2) \<Rightarrow> train_loop A R T n m' w2)))"

definition step ::
  "('x, 'f, 'gm, 'ag) Agent_class \<Rightarrow> 'g random_module \<Rightarrow> ('x, 'f) torch_module \<Rightarrow>
     ('x, 'gm, 'ag) MADDPG \<Rightarrow>
     'x list list \<Rightarrow> 'x list list \<Rightarrow> 'x list \<Rightarrow> 'x list list \<Rightarrow> bool list \<Rightarrow>
     ('x, 'f, 'g) proc \<Rightarrow>
     error option \<times> ('x, 'gm, 'ag) MADDPG \<times> ('x, 'f, 'g) proc" where
  "step A R T m states actions rewards next_states dones w =
     (case save_loop [0..<nat (num_agents m)] states actions rewards next_states dones
             (memory m) w of
        (Some e, rb, w') \<Rightarrow> (Some e, m\<lparr>memory := rb\<rparr>, w')
      | (None, rb, w') \<Rightarrow>
          (if len rb > minsamples_before_train m
           then train_loop A R T (nat (num_agents m)) (m\<lparr>memory := rb\<rparr>) w'
           else (None, m\<lparr>memory := rb\<rparr>, w')))"

section \<open>Notions used to state the properties\<close>

text \<open>A sequence of \<open>add\<close> calls, one per experience of a list.\<close>

definition add_all :: "'x ReplayBuffer \<Rightarrow> 'x Experience list \<Rightarrow> 'x ReplayBuffer" where
  "add_all rb es =
     foldl (\<lambda>b e. add b (state e) (action e) (reward e) (next_state e) (done_flag e)) rb es"

text \<open>
  The five arrays of a list of experiences whose rows fit: row \<open>i\<close> of every array comes
  from experience \<open>i\<close> of the list, every cell converted to a float.
\<close>

definition batch_of :: "('x, 'f) torch_module \<Rightarrow> 'x Experience list \<Rightarrow> 'f batch" where
  "batch_of T es =
     (map (\<lambda>e. map (float32 T) (state e)) es,
      map (\<lambda>e. map (float32 T) (action e)) es,
      map (\<lambda>e. [float32 T (reward e)]) es,
      map (\<lambda>e. map (float32 T) (next_state e)) es,
      map (\<lambda>e. [float32_of_uint8 T (if done_flag e then 1 else 0)]) es)"

text \<open>
  Experiences whose rows fit: all state vectors have one length, all action vectors have
  one length and all next-state vectors have one length.
\<close>

definition well_shaped :: "'x Experience list \<Rightarrow> bool" where
  "well_shaped es =
     (same_width (map state es) \<and> same_width (map action es) \<and>
      same_width (map next_state es))"

text \<open>
  The positions of the deque that the \<^verbatim>\<open>random.sample\<close> call of one \<open>sample\<close> call picks:
  the population is the whole deque and the sample size is the batch size.
\<close>

definition sample_positions ::
  "'g random_module \<Rightarrow> 'x ReplayBuffer \<Rightarrow> ('g, 'c) process \<Rightarrow> nat list" where
  "sample_positions R rb w =
     fst (pick R (random_state w) (length (replay_memory rb)) (nat (rb_batch_size rb)))"

text \<open>A batch that consists of the experiences at pairwise distinct positions of a buffer.\<close>

definition drawn_from :: "('x, 'f) torch_module \<Rightarrow> 'x ReplayBuffer \<Rightarrow> 'f batch \<Rightarrow> bool" where
  "drawn_from T rb b =
     (\<exists>ps. length ps = nat (rb_batch_size rb) \<and> distinct ps \<and>
           (\<forall>p \<in> set ps. p < length (replay_memory rb)) \<and>
           b = batch_of T (map (\<lambda>p. replay_memory rb ! p) ps))"

text \<open>The experiences a \<open>step\<close> call stores for \<open>k\<close> agents, in the order of the loop.\<close>

definition step_experiences ::
  "'x list list \<Rightarrow> 'x list list \<Rightarrow> 'x list \<Rightarrow> 'x list list \<Rightarrow> bool list \<Rightarrow> nat \<Rightarrow>
     'x Experience list" where
  "step_experiences states actions rewards next_states dones k =
     map (\<lambda>i. \<lparr>state = states ! i, action = actions ! i, reward = rewards ! i,
               next_state = next_states ! i, done_flag = dones ! i\<rparr>) [0..<k]"

text \<open>The calls of one learning iteration of \<open>step\<close> with \<open>k\<close> agents and batch \<open>b\<close>.\<close>

definition iteration_calls :: "nat \<Rightarrow> 'f batch \<Rightarrow> ('x, 'f) call list" where
  "iteration_calls k b =
     Call_sample (Inr b) # Call_learn b # map (\<lambda>j. Call_agent_learn j b) [0..<k]"

fun is_add :: "('x, 'f) call \<Rightarrow> bool" where
  "is_add (Call_add e) = True"
| "is_add c = False"

text \<open>
  The constructor creates one agent per index of \<^verbatim>\<open>range(num_agents)\<close>; no method
  changes the number of agents or \<open>num_agents\<close>.
\<close>

definition agents_match :: "('x, 'gm, 'ag) MADDPG \<Rightarrow> bool" where
  "agents_match m = (length (agents m) = nat (num_agents m))"

text \<open>A buffer used on its own: a sequence of \<open>add\<close> and \<open>sample\<close> calls and the results
  of the \<open>sample\<close> calls, each \<open>sample\<close> continuing from the generator state the call
  before it left, with no other use of the shared generator in between.\<close>

datatype 'x buffer_call = Do_add "'x list" "'x list" 'x "'x list" bool | Do_sample

fun run_calls ::
  "'g random_module \<Rightarrow> ('x, 'f) torch_module \<Rightarrow> 'x buffer_call list \<Rightarrow> 'x ReplayBuffer \<Rightarrow>
     ('g, 'c) process \<Rightarrow> (error + 'f batch) list \<times> 'x ReplayBuffer \<times> ('g, 'c) process" where
  "run_calls R T [] rb w = ([], rb, w)"
| "run_calls R T (Do_add s a r s' d # cs) rb w = run_calls R T cs (add rb s a r s' d) w"
| "run_calls R T (Do_sample # cs) rb w =
     (case sample R T rb w of
        (x, rb', w') \<Rightarrow>
          (case run_calls R T cs rb' w' of (xs, rb'', w'') \<Rightarrow> (x # xs, rb'', w'')))"

section \<open>Concrete instances for the examples\<close>

text \<open>
  A generator whose state is a counter and a sampler that picks \<open>k\<close> consecutive
  positions, starting at the counter and wrapping around at \<open>n\<close>.  It keeps the contract
  of \<^verbatim>\<open>random.sample\<close>; it is not the generator of the Python runtime.
\<close>

definition counter_random :: "nat random_module" where
  "counter_random =
     \<lparr>seed_state = nat, pick = (\<lambda>g n k. (map (\<lambda>i. (g + i) mod n) [0..<k], g + k))\<rparr>"

text \<open>
  The conversion for natural numbers below \<open>2 ^ 24\<close>, each of which a 32-bit float
  represents exactly; the examples use no other number.
\<close>

definition small_floats :: "(nat, nat) torch_module" where
  "small_floats = \<lparr>float32 = (\<lambda>x. x), float32_of_uint8 = (\<lambda>x. x)\<rparr>"

text \<open>An agent that counts its \<open>learn\<close> calls and answers a state by adding the count to
  every cell.\<close>

definition counting_agent :: "(nat, nat, nat, nat) Agent_class" where
  "counting_agent =
     \<lparr>Agent_init = (\<lambda>state_size asz sd. 0),
      Agent_act = (\<lambda>agent s add_noise. (map (\<lambda>x. x + agent) s, agent)),
      Agent_learn = (\<lambda>agent experiences gm. Suc agent)\<rparr>"

definition start :: "(nat, 'c) process" where
  "start = \<lparr>random_state = 0, calls = []\<rparr>"

definition tagged :: "nat \<Rightarrow> nat Experience" where
  "tagged i = \<lparr>state = [i], action = [i], reward = i, next_state = [i], done_flag = False\<rparr>"

text \<open>An experience whose vectors have length \<open>i\<close>.\<close>

definition ragged :: "nat \<Rightarrow> nat Experience" where
  "ragged i =
     \<lparr>state = replicate i 1, action = [1], reward = 1, next_state = replicate i 1,
      done_flag = False\<rparr>"

definition buffer_with :: "int \<Rightarrow> int \<Rightarrow> nat Experience list \<Rightarrow> nat ReplayBuffer" where
  "buffer_with buffer_size bsz es =
     add_all \<lparr>seed = None, action_size = 1, maxlen = nat buffer_size,
              replay_memory = [], rb_batch_size = bsz\<rparr> es"

definition coordinator ::
  "int \<Rightarrow> int \<Rightarrow> int \<Rightarrow> int \<Rightarrow> nat Experience list \<Rightarrow> (nat, nat, nat) MADDPG" where
  "coordinator n buffer_size bsz minsamples es =
     \<lparr>num_agents = n, batch_size = bsz, gamma = 99, minsamples_before_train = minsamples,
      agents = map (\<lambda>_. 0) [0..<nat n], memory = buffer_with buffer_size bsz es\<rparr>"

text \<open>
  Two buffers built in one process with the same seed and given the same experiences;
  the first is sampled, then the second.
\<close>

definition two_buffers :: "(error + nat batch) \<times> (error + nat batch)" where
  "two_buffers =
     (case ReplayBuffer_init counter_random 1 5 1 (Some 1) 0 (start :: (nat, unit) process) of
        (ra, w1) \<Rightarrow>
     (case ReplayBuffer_init counter_random 1 5 1 (Some 1) 0 w1 of
        (rb, w2) \<Rightarrow>
     (case (ra, rb) of
        (Inr a0, Inr b0) \<Rightarrow>
          (case sample counter_random small_floats (add_all a0 (map tagged [0, 1, 2])) w2 of
             (x, a1, w3) \<Rightarrow>
          (case sample counter_random small_floats (add_all b0 (map tagged [0, 1, 2])) w3 of
             (y, b1, w4) \<Rightarrow> (x, y)))
      | _ \<Rightarrow> (Inl ValueError, Inl ValueError))))"

section \<open>Properties of the buffer and of sampling\<close>

lemma deque_append_drop:
  "length xs \<le> n \<Longrightarrow> deque_append n xs x = drop (Suc (length xs) - n) (xs @ [x])"
proof (cases "length xs = n")
  case True
  have "deque_append n xs x = tl (xs @ [x])"
    by (simp add: deque_append_def True)
  also have "\<dots> = drop (Suc 0) (xs @ [x])"
    by (simp only: drop_Suc drop_0)
  also have "Suc 0 = Suc (length xs) - n"
    using True by simp
  finally show ?thesis .
next
  case False
  assume "length xs \<le> n"
  with False show ?thesis by (simp add: deque_append_def)
qed

lemma foldl_deque_append:
  "length xs \<le> n \<Longrightarrow>
     foldl (deque_append n) xs es = drop (length xs + length es - n) (xs @ es)"
proof (induction es rule: rev_induct)
  case Nil
  then show ?case by simp
next
  case (snoc e es)
  define d where "d = length xs + length es - n"
  define zs where "zs = xs @ es"
  have len: "length (drop d zs) = length xs + length es - d"
    by (simp add: zs_def)
  have "foldl (deque_append n) xs (es @ [e]) = deque_append n (drop d zs) e"
    using snoc by (simp add: d_def zs_def)
  also have "\<dots> = drop (Suc (length (drop d zs)) - n) (drop d zs @ [e])"
    by (rule deque_append_drop) (simp add: d_def zs_def)
  also have "drop d zs @ [e] = drop d (zs @ [e])"
    by (simp add: d_def zs_def)
  also have "drop (Suc (length (drop d zs)) - n) (drop d (zs @ [e]))
      = drop (Suc (length (drop d zs)) - n + d) (zs @ [e])"
    by (simp only: drop_drop)
  also have "Suc (length (drop d zs)) - n + d = length xs + length (es @ [e]) - n"
    unfolding len using snoc.prems by (simp add: d_def)
  finally show ?case by (simp add: zs_def)
qed

lemma Experience_eta:
  "\<lparr>state = state e, action = action e, reward = reward e,
     next_state = next_state e, done_flag = done_flag e\<rparr> = (e :: 'x Experience)"
  by (cases e) simp

lemma add_replay_memory:
  "replay_memory (add rb s a r s' d) =
     deque_append (maxlen rb) (replay_memory rb)
       \<lparr>state = s, action = a, reward = r, next_state = s', done_flag = d\<rparr>"
  by (simp add: add_def)

lemma add_maxlen: "maxlen (add rb s a r s' d) = maxlen rb"
  by (simp add: add_def)

lemma add_all_maxlen: "maxlen (add_all rb es) = maxlen rb"
  unfolding add_all_def by (induction es rule: rev_induct) (simp_all add: add_maxlen)

lemma add_all_batch_size: "rb_batch_size (add_all rb es) = rb_batch_size rb"
  unfolding add_all_def by (induction es rule: rev_induct) (simp_all add: add_def)

lemma add_all_Cons:
  "add_all rb (e # es) =
     add_all (add rb (state e) (action e) (reward e) (next_state e) (done_flag e)) es"
  by (simp add: add_all_def)

lemma add_all_replay_memory:
  "replay_memory (add_all rb es) = foldl (deque_append (maxlen rb)) (replay_memory rb) es"
proof (induction es rule: rev_induct)
  case Nil
  then show ?case by (simp add: add_all_def)
next
  case (snoc e es)
  have "add_all rb (es @ [e]) =
      add (add_all rb es) (state e) (action e) (reward e) (next_state e) (done_flag e)"
    by (simp add: add_all_def)
  then show ?case using snoc by (simp add: add_replay_memory add_all_maxlen Experience_eta)
qed

lemma same_width_subset:
  assumes "same_width rows" and "set rs \<subseteq> set rows"
  shows "same_width rs"
  unfolding same_width_def
proof
  fix r assume r: "r \<in> set rs"
  then have "rs \<noteq> []" by auto
  then have "hd rs \<in> set rs" by simp
  with assms r have "length r = length (hd rows)" "length (hd rs) = length (hd rows)"
    by (auto simp: same_width_def)
  then show "length r = length (hd rs)" by simp
qed

lemma well_shaped_subset:
  assumes "well_shaped es" and "set es' \<subseteq> set es"
  shows "well_shaped es'"
proof -
  have "set (map f es') \<subseteq> set (map f es)" for f :: "'a Experience \<Rightarrow> 'a list"
    using assms(2) by auto
  then show ?thesis
    using assms(1) unfolding well_shaped_def by (blast intro: same_width_subset)
qed

lemma same_width_singletons: "same_width (map (\<lambda>e. [f e]) es)"
  by (cases es) (auto simp: same_width_def)

lemma columns_eq:
  "columns T es = (if es \<noteq> [] \<and> well_shaped es then Inr (batch_of T es) else Inl ValueError)"
  by (auto simp: columns_def vstack_def bind_err_def batch_of_def well_shaped_def
      same_width_singletons comp_def)

lemma random_sample_error:
  "\<not> (0 \<le> k \<and> k \<le> int (length pop)) \<Longrightarrow> random_sample R pop k g = (Inl ValueError, g)"
  by (simp add: random_sample_def)

lemma random_sample_picked:
  "0 \<le> k \<Longrightarrow> k \<le> int (length pop) \<Longrightarrow>
     random_sample R pop k g =
       (Inr (map (\<lambda>p. pop ! p) (fst (pick R g (length pop) (nat k)))),
        snd (pick R g (length pop) (nat k)))"
  by (simp add: random_sample_def case_prod_beta)

lemma sample_positions_props:
  assumes "sample_contract R" and "0 \<le> rb_batch_size rb" and "rb_batch_size rb \<le> len rb"
  shows "length (sample_positions R rb w) = nat (rb_batch_size rb)"
    and "distinct (sample_positions R rb w)"
    and "\<forall>p \<in> set (sample_positions R rb w). p < length (replay_memory rb)"
proof -
  have "nat (rb_batch_size rb) \<le> length (replay_memory rb)"
    using assms(2,3) by (simp add: len_def)
  with assms(1) show "length (sample_positions R rb w) = nat (rb_batch_size rb)"
    and "distinct (sample_positions R rb w)"
    and "\<forall>p \<in> set (sample_positions R rb w). p < length (replay_memory rb)"
    unfolding sample_contract_def sample_positions_def by blast+
qed

lemma sample_out_of_range:
  "\<not> (0 \<le> rb_batch_size rb \<and> rb_batch_size rb \<le> len rb) \<Longrightarrow>
     sample R T rb w = (Inl ValueError, rb, w)"
  by (simp add: sample_def random_sample_error len_def)

lemma sample_in_range:
  assumes "0 \<le> rb_batch_size rb" and "rb_batch_size rb \<le> len rb"
  shows "sample R T rb w =
     (columns T (map (\<lambda>p. replay_memory rb ! p) (sample_positions R rb w)), rb,
      w\<lparr>random_state :=
          snd (pick R (random_state w) (length (replay_memory rb)) (nat (rb_batch_size rb)))\<rparr>)"
  using assms
  by (simp add: sample_def random_sample_picked len_def sample_positions_def)

lemma sample_zero:
  assumes "sample_contract R" and "rb_batch_size rb = 0"
  shows "fst (sample R T rb w) = Inl ValueError"
proof -
  have "length (sample_positions R rb w) = nat (rb_batch_size rb)"
    using assms by (intro sample_positions_props) (simp_all add: len_def)
  then have "sample_positions R rb w = []" using assms(2) by simp
  then show ?thesis
    using assms(2) by (simp add: sample_in_range len_def columns_eq)
qed

lemma sample_result:
  assumes "sample_contract R" and "1 \<le> rb_batch_size rb" and "rb_batch_size rb \<le> len rb"
  shows "fst (sample R T rb w) =
     (if well_shaped (map (\<lambda>p. replay_memory rb ! p) (sample_positions R rb w))
      then Inr (batch_of T (map (\<lambda>p. replay_memory rb ! p) (sample_positions R rb w)))
      else Inl ValueError)"
proof -
  have k: "0 \<le> rb_batch_size rb" using assms(2) by simp
  have "length (sample_positions R rb w) = nat (rb_batch_size rb)"
    using assms(1) k assms(3) by (rule sample_positions_props)
  then have "sample_positions R rb w \<noteq> []" using assms(2) by auto
  then show ?thesis
    by (simp add: sample_in_range[OF k assms(3)] columns_eq)
qed

lemma sample_succeeds:
  assumes "sample_contract R" and "1 \<le> rb_batch_size rb" and "rb_batch_size rb \<le> len rb"
    and "well_shaped (replay_memory rb)"
  shows "fst (sample R T rb w) =
           Inr (batch_of T (map (\<lambda>p. replay_memory rb ! p) (sample_positions R rb w)))"
proof -
  have k: "0 \<le> rb_batch_size rb" using assms(2) by simp
  have "\<forall>p \<in> set (sample_positions R rb w). p < length (replay_memory rb)"
    using assms(1) k assms(3) by (rule sample_positions_props)
  then have "set (map (\<lambda>p. replay_memory rb ! p) (sample_positions R rb w))
      \<subseteq> set (replay_memory rb)"
    by auto
  with assms(4) have "well_shaped (map (\<lambda>p. replay_memory rb ! p) (sample_positions R rb w))"
    by (rule well_shaped_subset)
  then show ?thesis by (simp add: sample_result[OF assms(1-3)])
qed

lemma sample_buffer: "fst (snd (sample R T rb w)) = rb"
  by (simp add: sample_def split: prod.splits sum.splits)

lemma sample_shape:
  "\<exists>g'. sample R T rb w = (fst (sample R T rb w), rb, w\<lparr>random_state := g'\<rparr>)"
  by (auto simp: sample_def split: prod.splits sum.splits)

lemma sample_random_state:
  "random_state w1 = random_state w2 \<Longrightarrow>
     fst (sample R T rb w1) = fst (sample R T rb w2) \<and>
     fst (snd (sample R T rb w1)) = fst (snd (sample R T rb w2)) \<and>
     random_state (snd (snd (sample R T rb w1))) = random_state (snd (snd (sample R T rb w2)))"
  by (simp add: sample_def split: prod.splits sum.splits)

lemma sample_drawn_from:
  assumes "sample_contract R" and "1 \<le> rb_batch_size rb" and "rb_batch_size rb \<le> len rb"
    and "well_shaped (replay_memory rb)"
  shows "\<exists>b. fst (sample R T rb w) = Inr b \<and> drawn_from T rb b"
proof -
  have k: "0 \<le> rb_batch_size rb" using assms(2) by simp
  note pp = sample_positions_props[OF assms(1) k assms(3), where w = w]
  have "drawn_from T rb (batch_of T (map (\<lambda>p. replay_memory rb ! p) (sample_positions R rb w)))"
    unfolding drawn_from_def using pp by blast
  then show ?thesis using sample_succeeds[OF assms, of T w] by simp
qed

lemma run_calls_random_state:
  "random_state w1 = random_state w2 \<Longrightarrow>
     fst (run_calls R T cs rb w1) = fst (run_calls R T cs rb w2) \<and>
     random_state (snd (snd (run_calls R T cs rb w1))) =
       random_state (snd (snd (run_calls R T cs rb w2)))"
proof (induction cs arbitrary: rb w1 w2)
  case Nil
  then show ?case by simp
next
  case (Cons c cs)
  show ?case
  proof (cases c)
    case (Do_add s a r s' d)
    then show ?thesis using Cons.IH[OF Cons.prems] by simp
  next
    case Do_sample
    obtain x1 r1 v1 where s1: "sample R T rb w1 = (x1, r1, v1)" by (cases "sample R T rb w1") auto
    obtain x2 r2 v2 where s2: "sample R T rb w2 = (x2, r2, v2)" by (cases "sample R T rb w2") auto
    from sample_random_state[OF Cons.prems, of R T rb] s1 s2
    have e: "x1 = x2" "r1 = r2" "random_state v1 = random_state v2" by simp_all
    from Cons.IH[OF e(3), of r1] show ?thesis
      using Do_sample s1 s2 e by (auto split: prod.splits)
  qed
qed

lemma mod_shift_le:
  fixes g i j n :: nat
  assumes "i \<le> j" "j < n" "(g + i) mod n = (g + j) mod n"
  shows "i = j"
proof -
  have "(g + j) mod n = (g + i) mod n \<longleftrightarrow> n dvd (g + j) - (g + i)"
    by (rule mod_eq_dvd_iff_nat) (use assms(1) in simp)
  then have "n dvd j - i" using assms(3) by simp
  moreover have "j - i < n" using assms(2) by simp
  ultimately have "j - i = 0" by (meson dvd_imp_le not_le zero_less_iff_neq_zero neq0_conv)
  with assms(1) show ?thesis by simp
qed

lemma mod_shift_inj:
  fixes g i j n :: nat
  assumes "i < n" "j < n" "(g + i) mod n = (g + j) mod n"
  shows "i = j"
proof (cases "i \<le> j")
  case True
  with assms show ?thesis by (intro mod_shift_le[of i j n g]) simp_all
next
  case False
  then have "j \<le> i" by simp
  with assms have "j = i" by (intro mod_shift_le[of j i n g]) simp_all
  then show ?thesis by simp
qed

lemma counter_random_contract: "sample_contract counter_random"
  unfolding sample_contract_def
proof (intro allI impI conjI ballI)
  fix g n k :: nat
  assume kn: "k \<le> n"
  have p: "fst (pick counter_random g n k) = map (\<lambda>i. (g + i) mod n) [0..<k]"
    by (simp add: counter_random_def)
  show "length (fst (pick counter_random g n k)) = k" by (simp add: p)
  show "distinct (fst (pick counter_random g n k))"
    unfolding p distinct_map
  proof (intro conjI inj_onI)
    show "distinct [0..<k]" by simp
    fix i j assume "i \<in> set [0..<k]" "j \<in> set [0..<k]" and e: "(g + i) mod n = (g + j) mod n"
    then have "i < n" "j < n" using kn by auto
    with e show "i = j" by (intro mod_shift_inj[of i n j g]) simp_all
  qed
  fix p' assume "p' \<in> set (fst (pick counter_random g n k))"
  then show "p' < n" using kn unfolding p by auto
qed

section \<open>Properties of the loops of the coordinator\<close>

subsection \<open>act\<close>

lemma act_loop_eq:
  "act_loop A ps add_noise =
     (map (\<lambda>(s, agent). fst (Agent_act A agent s add_noise)) ps,
      map (\<lambda>(s, agent). snd (Agent_act A agent s add_noise)) ps)"
  by (induction ps) (auto split: prod.splits)

lemma act_actions:
  "fst (act A m states add_noise) =
     map (\<lambda>(s, agent). fst (Agent_act A agent s add_noise)) (zip states (agents m))"
  by (simp add: act_def act_loop_eq)

lemma act_length:
  "length (fst (act A m states add_noise)) = min (length states) (length (agents m))"
  by (simp add: act_actions)

lemma act_nth:
  "i < length states \<Longrightarrow> i < length (agents m) \<Longrightarrow>
     fst (act A m states add_noise) ! i = fst (Agent_act A (agents m ! i) (states ! i) add_noise)"
  by (simp add: act_actions)

lemma act_agents:
  "agents (snd (act A m states add_noise)) =
     map (\<lambda>(s, agent). snd (Agent_act A agent s add_noise)) (zip states (agents m))
       @ drop (length states) (agents m)"
  by (simp add: act_def act_loop_eq min_def)

lemma act_agents_length: "length (agents (snd (act A m states add_noise))) = length (agents m)"
  by (simp add: act_agents)

lemma act_other_fields:
  "memory (snd (act A m states add_noise)) = memory m \<and>
   num_agents (snd (act A m states add_noise)) = num_agents m"
  by (simp add: act_def act_loop_eq)

lemma act_agents_match:
  "agents_match m \<Longrightarrow> agents_match (snd (act A m states add_noise))"
  by (simp add: agents_match_def act_agents_length act_other_fields)

subsection \<open>step and learn\<close>

lemma step_args_ok:
  "i < length states \<Longrightarrow> i < length actions \<Longrightarrow> i < length rewards \<Longrightarrow>
   i < length next_states \<Longrightarrow> i < length dones \<Longrightarrow>
     step_args states actions rewards next_states dones i =
       Inr \<lparr>state = states ! i, action = actions ! i, reward = rewards ! i,
            next_state = next_states ! i, done_flag = dones ! i\<rparr>"
  by (simp add: step_args_def getitem_def bind_err_def)

lemma save_loop_ok:
  assumes "\<forall>i \<in> set is. i < length states \<and> i < length actions \<and> i < length rewards \<and>
                        i < length next_states \<and> i < length dones"
  shows "save_loop is states actions rewards next_states dones rb w =
           (None,
            add_all rb (map (\<lambda>i. \<lparr>state = states ! i, action = actions ! i, reward = rewards ! i,
                                   next_state = next_states ! i, done_flag = dones ! i\<rparr>) is),
            w\<lparr>calls := calls w @
                 map (\<lambda>i. Call_add \<lparr>state = states ! i, action = actions ! i, reward = rewards ! i,
                                    next_state = next_states ! i, done_flag = dones ! i\<rparr>) is\<rparr>)"
  using assms
proof (induction "is" arbitrary: rb w)
  case Nil
  then show ?case by (simp add: add_all_def)
next
  case (Cons i "is")
  then show ?case
    by (simp add: step_args_ok add_all_Cons log_def)
qed

lemma save_loop_step_experiences:
  assumes "k \<le> length states" "k \<le> length actions" "k \<le> length rewards"
    "k \<le> length next_states" "k \<le> length dones"
  shows "save_loop [0..<k] states actions rewards next_states dones rb w =
           (None, add_all rb (step_experiences states actions rewards next_states dones k),
            w\<lparr>calls := calls w @
                 map Call_add (step_experiences states actions rewards next_states dones k)\<rparr>)"
proof -
  have "\<forall>i \<in> set [0..<k]. i < length states \<and> i < length actions \<and> i < length rewards \<and>
                        i < length next_states \<and> i < length dones"
    using assms by auto
  from save_loop_ok[OF this, of rb w] show ?thesis
    by (simp add: step_experiences_def comp_def)
qed

lemma learn_loop_eq:
  "learn_loop A ags j b gm w =
     (map (\<lambda>agent. Agent_learn A agent b gm) ags,
      w\<lparr>calls := calls w @ map (\<lambda>i. Call_agent_learn i b) [j..<j + length ags]\<rparr>)"
proof (induction ags arbitrary: j w)
  case Nil
  then show ?case by simp
next
  case (Cons agent ags)
  have "[j..<j + Suc (length ags)] = j # [Suc j..<j + Suc (length ags)]"
    by (rule upt_conv_Cons) simp
  then have "[j..<j + length (agent # ags)] = j # [Suc j..<Suc j + length ags]"
    by simp
  then show ?case using Cons[of "Suc j" "log (Call_agent_learn j b) w"]
    by (simp add: log_def)
qed

lemma learn_eq:
  "learn A m b gm w =
     (m\<lparr>agents := map (\<lambda>agent. Agent_learn A agent b gm) (agents m)\<rparr>,
      w\<lparr>calls := calls w @ Call_learn b # map (\<lambda>j. Call_agent_learn j b) [0..<length (agents m)]\<rparr>)"
  by (simp add: learn_def learn_loop_eq log_def)

lemma train_loop_frame:
  "memory (fst (snd (train_loop A R T n m w))) = memory m \<and>
   num_agents (fst (snd (train_loop A R T n m w))) = num_agents m \<and>
   length (agents (fst (snd (train_loop A R T n m w)))) = length (agents m) \<and>
   (\<exists>cs. calls (snd (snd (train_loop A R T n m w))) = calls w @ cs \<and>
         (\<forall>c \<in> set cs. \<not> is_add c))"
proof (induction n arbitrary: m w)
  case 0
  then show ?case by simp
next
  case (Suc n)
  obtain g' where s: "sample R T (memory m) w =
      (fst (sample R T (memory m) w), memory m, w\<lparr>random_state := g'\<rparr>)"
    using sample_shape[of R T "memory m" w] by (elim exE)
  show ?case
  proof (cases "fst (sample R T (memory m) w)")
    case (Inl e)
    with s have "sample R T (memory m) w = (Inl e, memory m, w\<lparr>random_state := g'\<rparr>)" by simp
    then show ?thesis by (simp add: log_def)
  next
    case (Inr b)
    with s have sm: "sample R T (memory m) w = (Inr b, memory m, w\<lparr>random_state := g'\<rparr>)"
      by simp
    define m1 where "m1 = m\<lparr>agents := map (\<lambda>agent. Agent_learn A agent b (gamma m)) (agents m)\<rparr>"
    define w2 where "w2 = (w\<lparr>random_state := g'\<rparr>)\<lparr>calls := calls w @
        Call_sample (Inr b) # Call_learn b # map (\<lambda>j. Call_agent_learn j b) [0..<length (agents m)]\<rparr>"
    have t: "train_loop A R T (Suc n) m w = train_loop A R T n m1 w2"
      using sm by (simp add: learn_eq log_def m1_def w2_def)
    from Suc[of m1 w2] obtain cs where
      f: "memory (fst (snd (train_loop A R T n m1 w2))) = memory m1"
         "num_agents (fst (snd (train_loop A R T n m1 w2))) = num_agents m1"
         "length (agents (fst (snd (train_loop A R T n m1 w2)))) = length (agents m1)"
      and cs: "calls (snd (snd (train_loop A R T n m1 w2))) = calls w2 @ cs"
        "\<forall>c \<in> set cs. \<not> is_add c"
      by blast
    let ?it = "Call_sample (Inr b) # Call_learn b #
        map (\<lambda>j. Call_agent_learn j b) [0..<length (agents m)]"
    have "calls (snd (snd (train_loop A R T n m1 w2))) = calls w @ (?it @ cs)"
      using cs(1) by (simp add: w2_def)
    moreover have "\<forall>c \<in> set (?it @ cs). \<not> is_add c" using cs(2) by auto
    ultimately have "\<exists>cs. calls (snd (snd (train_loop A R T n m1 w2))) = calls w @ cs \<and>
        (\<forall>c \<in> set cs. \<not> is_add c)" by blast
    then show ?thesis using f unfolding t by (simp add: m1_def)
  qed
qed

lemma run_calls_sample_step:
  assumes "sample R T rb w = (x, rb, w')"
  shows "fst (run_calls R T (replicate (Suc n) Do_sample) rb w) =
           x # fst (run_calls R T (replicate n Do_sample) rb w') \<and>
         snd (snd (run_calls R T (replicate (Suc n) Do_sample) rb w)) =
           snd (snd (run_calls R T (replicate n Do_sample) rb w'))"
  using assms by (simp split: prod.splits)

lemma train_loop_succeeds:
  assumes "sample_contract R"
    and "1 \<le> rb_batch_size (memory m)" and "rb_batch_size (memory m) \<le> len (memory m)"
    and "well_shaped (replay_memory (memory m))"
  shows "\<exists>bs. length bs = n \<and>
           map Inr bs = fst (run_calls R T (replicate n Do_sample) (memory m) w) \<and>
           (\<forall>b \<in> set bs. drawn_from T (memory m) b) \<and>
           fst (train_loop A R T n m w) = None \<and>
           agents (fst (snd (train_loop A R T n m w))) =
             map (\<lambda>agent. foldl (\<lambda>ag b. Agent_learn A ag b (gamma m)) agent bs) (agents m) \<and>
           calls (snd (snd (train_loop A R T n m w))) =
             calls w @ concat (map (iteration_calls (length (agents m))) bs) \<and>
           random_state (snd (snd (train_loop A R T n m w))) =
             random_state (snd (snd (run_calls R T (replicate n Do_sample) (memory m) w)))"
  using assms
proof (induction n arbitrary: m w)
  case 0
  then show ?case by (intro exI[of _ "[]"]) (simp add: map_idI)
next
  case (Suc n)
  obtain g' where s: "sample R T (memory m) w =
      (fst (sample R T (memory m) w), memory m, w\<lparr>random_state := g'\<rparr>)"
    using sample_shape[of R T "memory m" w] by (elim exE)
  from sample_drawn_from[OF Suc.prems, of T w] obtain b where
    b: "fst (sample R T (memory m) w) = Inr b" "drawn_from T (memory m) b" by blast
  with s have sm: "sample R T (memory m) w = (Inr b, memory m, w\<lparr>random_state := g'\<rparr>)"
    by simp
  define m1 where "m1 = m\<lparr>agents := map (\<lambda>agent. Agent_learn A agent b (gamma m)) (agents m)\<rparr>"
  define w2 where "w2 = (w\<lparr>random_state := g'\<rparr>)\<lparr>calls := calls w @
      Call_sample (Inr b) # Call_learn b # map (\<lambda>j. Call_agent_learn j b) [0..<length (agents m)]\<rparr>"
  have t: "train_loop A R T (Suc n) m w = train_loop A R T n m1 w2"
    using sm by (simp add: learn_eq log_def m1_def w2_def)
  have m1: "memory m1 = memory m" "gamma m1 = gamma m" "length (agents m1) = length (agents m)"
    by (simp_all add: m1_def)
  from Suc.IH[of m1 w2] Suc.prems obtain bs where bs: "length bs = n"
    "map Inr bs = fst (run_calls R T (replicate n Do_sample) (memory m) w2)"
    "\<forall>b \<in> set bs. drawn_from T (memory m) b"
    "fst (train_loop A R T n m1 w2) = None"
    "agents (fst (snd (train_loop A R T n m1 w2))) =
       map (\<lambda>agent. foldl (\<lambda>ag b. Agent_learn A ag b (gamma m)) agent bs) (agents m1)"
    "calls (snd (snd (train_loop A R T n m1 w2))) =
       calls w2 @ concat (map (iteration_calls (length (agents m))) bs)"
    "random_state (snd (snd (train_loop A R T n m1 w2))) =
       random_state (snd (snd (run_calls R T (replicate n Do_sample) (memory m) w2)))"
    unfolding m1 by blast
  have rs: "random_state w2 = random_state (w\<lparr>random_state := g'\<rparr>)"
    by (simp add: w2_def)
  note rc = run_calls_random_state[OF rs, of R T "replicate n Do_sample" "memory m"]
  note st = run_calls_sample_step[OF sm, of n]
  have r1: "map Inr (b # bs) = fst (run_calls R T (replicate (Suc n) Do_sample) (memory m) w)"
    using bs(2) rc st by simp
  have r2: "random_state (snd (snd (train_loop A R T n m1 w2))) =
      random_state (snd (snd (run_calls R T (replicate (Suc n) Do_sample) (memory m) w)))"
    using bs(7) rc st by simp
  have c: "calls w2 = calls w @ iteration_calls (length (agents m)) b"
    by (simp add: w2_def iteration_calls_def)
  have a: "map (\<lambda>agent. foldl (\<lambda>ag b. Agent_learn A ag b (gamma m)) agent bs) (agents m1)
      = map (\<lambda>agent. foldl (\<lambda>ag b. Agent_learn A ag b (gamma m)) agent (b # bs)) (agents m)"
    by (simp add: m1_def)
  show ?case
    unfolding t
    using bs(1) r1 bs(3,4) b(2) bs(5)[unfolded a] bs(6)[unfolded c] r2
    by (intro exI[of _ "b # bs"]) simp
qed

lemma step_unfold:
  assumes "nat (num_agents m) \<le> length states" "nat (num_agents m) \<le> length actions"
    "nat (num_agents m) \<le> length rewards" "nat (num_agents m) \<le> length next_states"
    "nat (num_agents m) \<le> length dones"
  shows "step A R T m states actions rewards next_states dones w =
     (if minsamples_before_train m <
           len (add_all (memory m)
                  (step_experiences states actions rewards next_states dones (nat (num_agents m))))
      then train_loop A R T (nat (num_agents m))
             (m\<lparr>memory := add_all (memory m)
                  (step_experiences states actions rewards next_states dones (nat (num_agents m)))\<rparr>)
             (w\<lparr>calls := calls w @ map Call_add
                  (step_experiences states actions rewards next_states dones (nat (num_agents m)))\<rparr>)
      else (None,
            m\<lparr>memory := add_all (memory m)
                  (step_experiences states actions rewards next_states dones (nat (num_agents m)))\<rparr>,
            w\<lparr>calls := calls w @ map Call_add
                  (step_experiences states actions rewards next_states dones (nat (num_agents m)))\<rparr>))"
  by (simp add: step_def save_loop_step_experiences[OF assms])

lemma step_memory:
  assumes "nat (num_agents m) \<le> length states" "nat (num_agents m) \<le> length actions"
    "nat (num_agents m) \<le> length rewards" "nat (num_agents m) \<le> length next_states"
    "nat (num_agents m) \<le> length dones"
  shows "memory (fst (snd (step A R T m states actions rewards next_states dones w))) =
           add_all (memory m)
             (step_experiences states actions rewards next_states dones (nat (num_agents m)))"
  unfolding step_unfold[OF assms] by (simp add: train_loop_frame)

lemma step_training:
  assumes "sample_contract R" and "agents_match m"
    and "nat (num_agents m) \<le> length states" "nat (num_agents m) \<le> length actions"
    "nat (num_agents m) \<le> length rewards" "nat (num_agents m) \<le> length next_states"
    "nat (num_agents m) \<le> length dones"
    and "minsamples_before_train m <
           len (memory (fst (snd (step A R T m states actions rewards next_states dones w))))"
    and "1 \<le> rb_batch_size (memory m)"
    and "rb_batch_size (memory m) \<le>
           len (memory (fst (snd (step A R T m states actions rewards next_states dones w))))"
    and "well_shaped (replay_memory
           (memory (fst (snd (step A R T m states actions rewards next_states dones w)))))"
  shows "\<exists>bs. length bs = nat (num_agents m) \<and>
           map Inr bs =
             fst (run_calls R T (replicate (nat (num_agents m)) Do_sample)
                    (memory (fst (snd (step A R T m states actions rewards next_states dones w))))
                    w) \<and>
           (\<forall>b \<in> set bs. drawn_from T
               (memory (fst (snd (step A R T m states actions rewards next_states dones w)))) b) \<and>
           fst (step A R T m states actions rewards next_states dones w) = None \<and>
           agents (fst (snd (step A R T m states actions rewards next_states dones w))) =
             map (\<lambda>agent. foldl (\<lambda>ag b. Agent_learn A ag b (gamma m)) agent bs) (agents m) \<and>
           calls (snd (snd (step A R T m states actions rewards next_states dones w))) =
             calls w @
             map Call_add
               (step_experiences states actions rewards next_states dones (nat (num_agents m))) @
             concat (map (iteration_calls (nat (num_agents m))) bs) \<and>
           random_state (snd (snd (step A R T m states actions rewards next_states dones w))) =
             random_state (snd (snd
               (run_calls R T (replicate (nat (num_agents m)) Do_sample)
                  (memory (fst (snd (step A R T m states actions rewards next_states dones w))))
                  w)))"
proof -
  let ?k = "nat (num_agents m)"
  let ?es = "step_experiences states actions rewards next_states dones ?k"
  let ?m1 = "m\<lparr>memory := add_all (memory m) ?es\<rparr>"
  let ?w1 = "w\<lparr>calls := calls w @ map Call_add ?es\<rparr>"
  note le = assms(3-7)
  note mem = step_memory[OF le, of A R T w]
  have Th: "minsamples_before_train m < len (add_all (memory m) ?es)"
    using assms(8) unfolding mem .
  have st: "step A R T m states actions rewards next_states dones w =
      train_loop A R T ?k ?m1 ?w1"
    unfolding step_unfold[OF le] using Th by simp
  have b1: "1 \<le> rb_batch_size (memory ?m1)"
    using assms(9) by (simp add: add_all_batch_size)
  have b2: "rb_batch_size (memory ?m1) \<le> len (memory ?m1)"
    using assms(10) unfolding mem by (simp add: add_all_batch_size)
  have b3: "well_shaped (replay_memory (memory ?m1))"
    using assms(11) unfolding mem by simp
  from train_loop_succeeds[OF assms(1) b1 b2 b3, of ?k T ?w1 A] obtain bs where
    bs: "length bs = ?k"
      "map Inr bs = fst (run_calls R T (replicate ?k Do_sample) (memory ?m1) ?w1)"
      "\<forall>b \<in> set bs. drawn_from T (memory ?m1) b"
      "fst (train_loop A R T ?k ?m1 ?w1) = None"
      "agents (fst (snd (train_loop A R T ?k ?m1 ?w1))) =
         map (\<lambda>agent. foldl (\<lambda>ag b. Agent_learn A ag b (gamma ?m1)) agent bs) (agents ?m1)"
      "calls (snd (snd (train_loop A R T ?k ?m1 ?w1))) =
         calls ?w1 @ concat (map (iteration_calls (length (agents ?m1))) bs)"
      "random_state (snd (snd (train_loop A R T ?k ?m1 ?w1))) =
         random_state (snd (snd (run_calls R T (replicate ?k Do_sample) (memory ?m1) ?w1)))"
    by blast
  have ag: "length (agents ?m1) = ?k" using assms(2) by (simp add: agents_match_def)
  have rs: "random_state ?w1 = random_state w" by simp
  note rc = run_calls_random_state[OF rs, of R T "replicate ?k Do_sample" "memory ?m1"]
  have mm: "memory ?m1 =
      memory (fst (snd (step A R T m states actions rewards next_states dones w)))"
    unfolding mem by simp
  show ?thesis
    using bs(1) bs(2)[unfolded mm] bs(3)[unfolded mm] bs(4) bs(5) bs(6) bs(7)[unfolded mm]
      rc[unfolded mm] ag
    unfolding st[symmetric] by (intro exI[of _ bs]) simp
qed

lemma MADDPG_init_agents_match:
  "MADDPG_init A R n state_size asz sd buffer_size bsz gm minsamples entropy w = (Inr m, w') \<Longrightarrow>
     agents_match m \<and> rb_batch_size (memory m) = bsz \<and> replay_memory (memory m) = [] \<and>
     minsamples_before_train m = minsamples \<and> num_agents m = n"
  by (auto simp: MADDPG_init_def ReplayBuffer_init_def Let_def agents_match_def
      split: prod.splits sum.splits if_splits)

lemma step_agents_match:
  assumes "agents_match m"
  shows "agents_match (fst (snd (step A R T m states actions rewards next_states dones w)))"
proof -
  obtain r rb w' where s: "save_loop [0..<nat (num_agents m)] states actions rewards next_states
      dones (memory m) w = (r, rb, w')"
    by (cases "save_loop [0..<nat (num_agents m)] states actions rewards next_states
      dones (memory m) w") auto
  show ?thesis
  proof (cases r)
    case None
    show ?thesis
      using assms train_loop_frame[of A R T "nat (num_agents m)" "m\<lparr>memory := rb\<rparr>" w']
      by (simp add: step_def s None agents_match_def)
  next
    case (Some e)
    then show ?thesis using assms by (simp add: step_def s agents_match_def)
  qed
qed

subsection \<open>One training step, evaluated\<close>

lemma training_step_value:
  "step counting_agent counter_random small_floats (coordinator 2 10 2 1 [tagged 1])
       [[7], [17]] [[8], [18]] [9, 19] [[70], [170]] [False, True] start =
     (None,
      (coordinator 2 10 2 1 [tagged 1,
          \<lparr>state = [7], action = [8], reward = 9, next_state = [70], done_flag = False\<rparr>,
          \<lparr>state = [17], action = [18], reward = 19, next_state = [170], done_flag = True\<rparr>])
        \<lparr>agents := [2, 2]\<rparr>,
      \<lparr>random_state = 4,
       calls =
         [Call_add \<lparr>state = [7], action = [8], reward = 9, next_state = [70], done_flag = False\<rparr>,
          Call_add \<lparr>state = [17], action = [18], reward = 19, next_state = [170], done_flag = True\<rparr>,
          Call_sample (Inr ([[1], [7]], [[1], [8]], [[1], [9]], [[1], [70]], [[0], [0]])),
          Call_learn ([[1], [7]], [[1], [8]], [[1], [9]], [[1], [70]], [[0], [0]]),
          Call_agent_learn 0 ([[1], [7]], [[1], [8]], [[1], [9]], [[1], [70]], [[0], [0]]),
          Call_agent_learn 1 ([[1], [7]], [[1], [8]], [[1], [9]], [[1], [70]], [[0], [0]]),
          Call_sample (Inr ([[17], [1]], [[18], [1]], [[19], [1]], [[170], [1]], [[1], [0]])),
          Call_learn ([[17], [1]], [[18], [1]], [[19], [1]], [[170], [1]], [[1], [0]]),
          Call_agent_learn 0 ([[17], [1]], [[18], [1]], [[19], [1]], [[170], [1]], [[1], [0]]),
          Call_agent_learn 1 ([[17], [1]], [[18], [1]], [[19], [1]], [[170], [1]], [[1], [0]])]\<rparr>)"
proof -
  let ?t = "coordinator 2 10 2 1 [tagged 1]"
  let ?es = "[\<lparr>state = [7], action = [8], reward = 9, next_state = [70], done_flag = False\<rparr>,
          \<lparr>state = [17], action = [18], reward = 19, next_state = [170], done_flag = True\<rparr>]
          :: nat Experience list"
  have k: "nat (num_agents ?t) = 2" by (simp add: coordinator_def)
  have le: "nat (num_agents ?t) \<le> length [[7], [17 :: nat]]"
    "nat (num_agents ?t) \<le> length [[8], [18 :: nat]]"
    "nat (num_agents ?t) \<le> length [9, 19 :: nat]"
    "nat (num_agents ?t) \<le> length [[70], [170 :: nat]]"
    "nat (num_agents ?t) \<le> length [False, True]"
    unfolding k by simp_all
  have es: "step_experiences [[7], [17 :: nat]] [[8], [18]] [9, 19] [[70], [170]] [False, True] 2
      = ?es"
    by code_simp
  have Th: "minsamples_before_train ?t < len (add_all (memory ?t) ?es)"
    by code_simp
  have tl: "train_loop counting_agent counter_random small_floats 2
      (?t\<lparr>memory := add_all (memory ?t) ?es\<rparr>)
      (start\<lparr>calls := calls start @ map Call_add ?es\<rparr>) =
     (None,
      (coordinator 2 10 2 1 [tagged 1,
          \<lparr>state = [7], action = [8], reward = 9, next_state = [70], done_flag = False\<rparr>,
          \<lparr>state = [17], action = [18], reward = 19, next_state = [170], done_flag = True\<rparr>])
        \<lparr>agents := [2, 2]\<rparr>,
      \<lparr>random_state = 4,
       calls =
         [Call_add \<lparr>state = [7], action = [8], reward = 9, next_state = [70], done_flag = False\<rparr>,
          Call_add \<lparr>state = [17], action = [18], reward = 19, next_state = [170], done_flag = True\<rparr>,
          Call_sample (Inr ([[1], [7]], [[1], [8]], [[1], [9]], [[1], [70]], [[0], [0]])),
          Call_learn ([[1], [7]], [[1], [8]], [[1], [9]], [[1], [70]], [[0], [0]]),
          Call_agent_learn 0 ([[1], [7]], [[1], [8]], [[1], [9]], [[1], [70]], [[0], [0]]),
          Call_agent_learn 1 ([[1], [7]], [[1], [8]], [[1], [9]], [[1], [70]], [[0], [0]]),
          Call_sample (Inr ([[17], [1]], [[18], [1]], [[19], [1]], [[170], [1]], [[1], [0]])),
          Call_learn ([[17], [1]], [[18], [1]], [[19], [1]], [[170], [1]], [[1], [0]]),
          Call_agent_learn 0 ([[17], [1]], [[18], [1]], [[19], [1]], [[170], [1]], [[1], [0]]),
          Call_agent_learn 1 ([[17], [1]], [[18], [1]], [[19], [1]], [[170], [1]], [[1], [0]])]\<rparr>)"
    by code_simp
  show ?thesis
    unfolding step_unfold[OF le] k es
    using Th tl by simp
qed

lemma training_step_hyps:
  "sample_contract counter_random \<and>
   agents_match (coordinator 2 10 2 1 [tagged 1]) \<and>
   length [[7], [17 :: nat]] = nat (num_agents (coordinator 2 10 2 1 [tagged 1])) \<and>
   length [[8], [18 :: nat]] = nat (num_agents (coordinator 2 10 2 1 [tagged 1])) \<and>
   length [9, 19 :: nat] = nat (num_agents (coordinator 2 10 2 1 [tagged 1])) \<and>
   length [[70], [170 :: nat]] = nat (num_agents (coordinator 2 10 2 1 [tagged 1])) \<and>
   length [False, True] = nat (num_agents (coordinator 2 10 2 1 [tagged 1])) \<and>
   minsamples_before_train (coordinator 2 10 2 1 [tagged 1]) <
     len (memory (fst (snd (step counting_agent counter_random small_floats
          (coordinator 2 10 2 1 [tagged 1])
          [[7], [17]] [[8], [18]] [9, 19] [[70], [170]] [False, True] start)))) \<and>
   1 \<le> rb_batch_size (memory (coordinator 2 10 2 1 [tagged 1])) \<and>
   rb_batch_size (memory (coordinator 2 10 2 1 [tagged 1])) \<le>
     len (memory (fst (snd (step counting_agent counter_random small_floats
          (coordinator 2 10 2 1 [tagged 1])
          [[7], [17]] [[8], [18]] [9, 19] [[70], [170]] [False, True] start)))) \<and>
   well_shaped (replay_memory (memory (fst (snd (step counting_agent counter_random small_floats
          (coordinator 2 10 2 1 [tagged 1])
          [[7], [17]] [[8], [18]] [9, 19] [[70], [170]] [False, True] start)))))"
proof -
  let ?m' = "(coordinator 2 10 2 1 [tagged 1,
          \<lparr>state = [7], action = [8], reward = 9, next_state = [70], done_flag = False\<rparr>,
          \<lparr>state = [17], action = [18], reward = 19, next_state = [170], done_flag = True\<rparr>])
        \<lparr>agents := [2, 2]\<rparr>"
  have "len (memory ?m') = 3" by code_simp
  moreover have "well_shaped (replay_memory (memory ?m'))" by code_simp
  moreover have "minsamples_before_train (coordinator 2 10 2 1 [tagged 1]) = 1"
    "rb_batch_size (memory (coordinator 2 10 2 1 [tagged 1])) = 2"
    by code_simp+
  moreover have "agents_match (coordinator 2 10 2 1 [tagged 1])"
    "nat (num_agents (coordinator 2 10 2 1 [tagged 1])) = 2"
    by (simp_all add: agents_match_def coordinator_def)
  ultimately show ?thesis
    unfolding training_step_value using counter_random_contract by simp
qed

section \<open>Capacity and eviction order of the buffer\<close>

text \<open>
  C3.  Start from a buffer as its constructor returns it, with capacity \<open>buffer_size\<close>, and
  perform any sequence of \<open>add\<close> calls.  The length never exceeds \<open>buffer_size\<close>; the buffer
  holds the last \<open>buffer_size\<close> experiences added, in the order they were added; and an
  \<open>add\<close> on a full buffer drops the oldest experience and appends the new one at the end.
\<close>

theorem replay_buffer_capacity_fifo:
  assumes "ReplayBuffer_init R asz buffer_size bsz sd entropy w = (Inr rb, w')"
  shows "len (add_all rb es) \<le> buffer_size \<and>
         replay_memory (add_all rb es) = drop (length es - nat buffer_size) es \<and>
         (len (add_all rb es) = buffer_size \<longrightarrow>
            replay_memory (add (add_all rb es) s a r s' d) =
              tl (replay_memory (add_all rb es) @
                    [\<lparr>state = s, action = a, reward = r, next_state = s', done_flag = d\<rparr>])) \<and>
         (len (add_all rb es) = buffer_size \<and> 0 < buffer_size \<longrightarrow>
            replay_memory (add (add_all rb es) s a r s' d) =
              tl (replay_memory (add_all rb es)) @
                    [\<lparr>state = s, action = a, reward = r, next_state = s', done_flag = d\<rparr>])"
proof -
  from assms have nn: "0 \<le> buffer_size"
    and rb: "maxlen rb = nat buffer_size" "replay_memory rb = []"
    by (auto simp: ReplayBuffer_init_def Let_def split: if_splits)
  have mem: "replay_memory (add_all rb es) = drop (length es - nat buffer_size) es"
    using foldl_deque_append[of "[]" "nat buffer_size" es]
    by (simp add: add_all_replay_memory rb)
  have le: "len (add_all rb es) \<le> buffer_size"
    using nn by (simp add: len_def mem)
  have ml: "maxlen (add_all rb es) = nat buffer_size"
    by (simp add: add_all_maxlen rb)
  have full: "replay_memory (add (add_all rb es) s a r s' d) =
      tl (replay_memory (add_all rb es) @
            [\<lparr>state = s, action = a, reward = r, next_state = s', done_flag = d\<rparr>])"
    if "len (add_all rb es) = buffer_size"
    using that by (auto simp: add_replay_memory deque_append_def Let_def ml len_def)
  have full': "replay_memory (add (add_all rb es) s a r s' d) =
      tl (replay_memory (add_all rb es)) @
            [\<lparr>state = s, action = a, reward = r, next_state = s', done_flag = d\<rparr>]"
    if "len (add_all rb es) = buffer_size" "0 < buffer_size"
  proof -
    from that have "replay_memory (add_all rb es) \<noteq> []" by (auto simp: len_def)
    then show ?thesis using full[OF that(1)] by simp
  qed
  from mem le full full' show ?thesis by blast
qed

text \<open>
  The example of the claim: seven experiences tagged 1 to 7 added to a buffer of capacity
  5 leave 3, 4, 5, 6, 7 in this order; an eighth evicts 3.
\<close>

theorem replay_buffer_capacity_fifo_witness:
  "ReplayBuffer_init counter_random 1 5 2 (Some 0) 0 (start :: (nat, unit) process) =
     (Inr (buffer_with 5 2 []), start) \<and>
   replay_memory (add_all (buffer_with 5 2 []) (map tagged [1, 2, 3, 4, 5, 6, 7])) =
     map tagged [3, 4, 5, 6, 7] \<and>
   len (add_all (buffer_with 5 2 []) (map tagged [1, 2, 3, 4, 5, 6, 7])) = 5 \<and>
   replay_memory (add (add_all (buffer_with 5 2 []) (map tagged [1, 2, 3, 4, 5, 6, 7]))
                    [8] [8] 8 [8] False) =
     map tagged [4, 5, 6, 7, 8]"
proof -
  have init: "ReplayBuffer_init counter_random 1 5 2 (Some 0) 0 (start :: (nat, unit) process) =
      (Inr (buffer_with 5 2 []), start)"
    by (simp add: ReplayBuffer_init_def random_seed_def counter_random_def start_def
        buffer_with_def add_all_def)
  note t = replay_buffer_capacity_fifo[OF init, of "map tagged [1, 2, 3, 4, 5, 6, 7]"
      "[8]" "[8]" 8 "[8]" False]
  from t have mem: "replay_memory (add_all (buffer_with 5 2 []) (map tagged [1, 2, 3, 4, 5, 6, 7])) =
      map tagged [3, 4, 5, 6, 7]"
    by simp
  then have l: "len (add_all (buffer_with 5 2 []) (map tagged [1, 2, 3, 4, 5, 6, 7])) = 5"
    by (simp add: len_def)
  from t l mem have "replay_memory (add (add_all (buffer_with 5 2 [])
      (map tagged [1, 2, 3, 4, 5, 6, 7])) [8] [8] 8 [8] False) = map tagged [4, 5, 6, 7, 8]"
    by (simp add: tagged_def)
  with init mem l show ?thesis by simp
qed

section \<open>The batch returned by sample\<close>

text \<open>
  C4, as amended.  Let \<^verbatim>\<open>random.sample\<close> keep its contract, let the buffer's \<open>batch_size\<close>
  be at least 1 and at most its length, and let the stored experiences be well shaped.
  Then \<open>sample\<close> returns the five arrays states, actions, rewards, next_states and dones
  of the experiences that \<^verbatim>\<open>random.sample\<close> draws from the whole deque with sample size
  \<open>batch_size\<close>, the library's uniform draw without replacement, in the order drawn and
  with every cell converted to a float.  Each array has exactly \<open>batch_size\<close> rows, and the
  positions drawn are pairwise distinct positions of the deque, so no stored transition
  occurs twice in the batch.
\<close>

theorem sample_batch:
  assumes "sample_contract R"
    and "1 \<le> rb_batch_size rb" and "rb_batch_size rb \<le> len rb"
    and "well_shaped (replay_memory rb)"
  shows "fst (sample R T rb w) =
           Inr (batch_of T (map (\<lambda>p. replay_memory rb ! p) (sample_positions R rb w))) \<and>
         length (sample_positions R rb w) = nat (rb_batch_size rb) \<and>
         distinct (sample_positions R rb w) \<and>
         (\<forall>p \<in> set (sample_positions R rb w). p < length (replay_memory rb)) \<and>
         (\<exists>states actions rewards next_states dones.
            fst (sample R T rb w) = Inr (states, actions, rewards, next_states, dones) \<and>
            length states = nat (rb_batch_size rb) \<and> length actions = nat (rb_batch_size rb) \<and>
            length rewards = nat (rb_batch_size rb) \<and>
            length next_states = nat (rb_batch_size rb) \<and>
            length dones = nat (rb_batch_size rb))"
proof -
  have k: "0 \<le> rb_batch_size rb" using assms(2) by simp
  note pp = sample_positions_props[OF assms(1) k assms(3), where w = w]
  have res: "fst (sample R T rb w) =
      Inr (batch_of T (map (\<lambda>p. replay_memory rb ! p) (sample_positions R rb w)))"
    using assms by (rule sample_succeeds)
  have cols: "\<exists>states actions rewards next_states dones.
      fst (sample R T rb w) = Inr (states, actions, rewards, next_states, dones) \<and>
      length states = nat (rb_batch_size rb) \<and> length actions = nat (rb_batch_size rb) \<and>
      length rewards = nat (rb_batch_size rb) \<and>
      length next_states = nat (rb_batch_size rb) \<and>
      length dones = nat (rb_batch_size rb)"
    unfolding res by (simp add: batch_of_def pp(1))
  show ?thesis
    using res pp cols by blast
qed

text \<open>
  A buffer of capacity 5 and batch size 2 after seven \<open>add\<close> calls, sampled with the
  counter generator.
\<close>

theorem sample_batch_witness:
  "sample_contract counter_random \<and>
   1 \<le> rb_batch_size (buffer_with 5 2 (map tagged [1, 2, 3, 4, 5, 6, 7])) \<and>
   rb_batch_size (buffer_with 5 2 (map tagged [1, 2, 3, 4, 5, 6, 7]))
     \<le> len (buffer_with 5 2 (map tagged [1, 2, 3, 4, 5, 6, 7])) \<and>
   well_shaped (replay_memory (buffer_with 5 2 (map tagged [1, 2, 3, 4, 5, 6, 7]))) \<and>
   fst (sample counter_random small_floats (buffer_with 5 2 (map tagged [1, 2, 3, 4, 5, 6, 7]))
         (start :: (nat, unit) process)) =
     Inr ([[3], [4]], [[3], [4]], [[3], [4]], [[3], [4]], [[0], [0]]) \<and>
   sample_positions counter_random (buffer_with 5 2 (map tagged [1, 2, 3, 4, 5, 6, 7]))
         (start :: (nat, unit) process) = [0, 1] \<and>
   distinct (sample_positions counter_random (buffer_with 5 2 (map tagged [1, 2, 3, 4, 5, 6, 7]))
         (start :: (nat, unit) process))"
proof -
  let ?b = "buffer_with 5 2 (map tagged [1, 2, 3, 4, 5, 6, 7])"
  have h1: "1 \<le> rb_batch_size ?b" by code_simp
  have h2: "rb_batch_size ?b \<le> len ?b" by code_simp
  have h3: "well_shaped (replay_memory ?b)" by code_simp
  have p: "sample_positions counter_random ?b (start :: (nat, unit) process) = [0, 1]"
    by code_simp
  have m: "batch_of small_floats (map (\<lambda>p. replay_memory ?b ! p) [0, 1]) =
      ([[3], [4]], [[3], [4]], [[3], [4]], [[3], [4]], [[0], [0]])"
    by code_simp
  from sample_batch[OF counter_random_contract h1 h2 h3, of small_floats
      "start :: (nat, unit) process"]
  have "fst (sample counter_random small_floats ?b (start :: (nat, unit) process)) =
      Inr ([[3], [4]], [[3], [4]], [[3], [4]], [[3], [4]], [[0], [0]]) \<and>
    distinct (sample_positions counter_random ?b (start :: (nat, unit) process))"
    unfolding p m by simp
  with counter_random_contract h1 h2 h3 p show ?thesis by simp
qed

text \<open>
  The claim as stated asks only for a length of at least \<open>batch_size\<close>.  With
  \<open>batch_size = 0\<close> and one stored experience \<^verbatim>\<open>random.sample\<close> returns the empty list
  and \<^verbatim>\<open>np.vstack\<close> of no rows raises ValueError.  With \<open>batch_size = 2\<close> and two stored
  experiences whose state vectors have lengths 1 and 2, both are drawn and \<^verbatim>\<open>np.vstack\<close>
  raises ValueError on the rows of different lengths.  No batch is returned in either
  case.
\<close>

theorem sample_batch_counterexample:
  "rb_batch_size (buffer_with 5 0 [tagged 1]) \<le> len (buffer_with 5 0 [tagged 1]) \<and>
   fst (sample counter_random small_floats (buffer_with 5 0 [tagged 1])
          (start :: (nat, unit) process)) = Inl ValueError \<and>
   rb_batch_size (buffer_with 5 2 [ragged 1, ragged 2]) \<le> len (buffer_with 5 2 [ragged 1, ragged 2]) \<and>
   state (ragged 1) = [1] \<and> state (ragged 2) = [1, 1] \<and>
   fst (sample counter_random small_floats (buffer_with 5 2 [ragged 1, ragged 2])
          (start :: (nat, unit) process)) = Inl ValueError"
  by code_simp

section \<open>When sample fails\<close>

text \<open>
  C5, as amended.  \<open>sample\<close> raises ValueError whenever the length of the buffer is below
  \<open>batch_size\<close>, and also whenever \<open>batch_size\<close> is negative or zero.  When \<open>batch_size\<close> is
  at least 1 and at most the length, \<open>sample\<close> returns a batch if the stored experiences
  are well shaped, and raises ValueError if the experiences drawn are not.  The cases
  that reach \<^verbatim>\<open>random.sample\<close> with a sample size in range take its contract as given.
\<close>

theorem sample_success_condition:
  "(len rb < rb_batch_size rb \<longrightarrow> fst (sample R T rb w) = Inl ValueError) \<and>
   (rb_batch_size rb < 0 \<longrightarrow> fst (sample R T rb w) = Inl ValueError) \<and>
   (sample_contract R \<and> rb_batch_size rb = 0 \<longrightarrow> fst (sample R T rb w) = Inl ValueError) \<and>
   (sample_contract R \<and> 1 \<le> rb_batch_size rb \<and> rb_batch_size rb \<le> len rb \<and>
    well_shaped (replay_memory rb) \<longrightarrow>
      (\<exists>b. fst (sample R T rb w) = Inr b)) \<and>
   (sample_contract R \<and> 1 \<le> rb_batch_size rb \<and> rb_batch_size rb \<le> len rb \<and>
    \<not> well_shaped (map (\<lambda>p. replay_memory rb ! p) (sample_positions R rb w)) \<longrightarrow>
      fst (sample R T rb w) = Inl ValueError)"
proof (intro conjI impI)
  assume "len rb < rb_batch_size rb"
  then show "fst (sample R T rb w) = Inl ValueError" by (simp add: sample_out_of_range)
next
  assume "rb_batch_size rb < 0"
  then show "fst (sample R T rb w) = Inl ValueError" by (simp add: sample_out_of_range)
next
  assume "sample_contract R \<and> rb_batch_size rb = 0"
  then show "fst (sample R T rb w) = Inl ValueError" by (simp add: sample_zero)
next
  assume "sample_contract R \<and> 1 \<le> rb_batch_size rb \<and> rb_batch_size rb \<le> len rb \<and>
    well_shaped (replay_memory rb)"
  then show "\<exists>b. fst (sample R T rb w) = Inr b"
    using sample_succeeds[of R rb T w] by blast
next
  assume "sample_contract R \<and> 1 \<le> rb_batch_size rb \<and> rb_batch_size rb \<le> len rb \<and>
    \<not> well_shaped (map (\<lambda>p. replay_memory rb ! p) (sample_positions R rb w))"
  then show "fst (sample R T rb w) = Inl ValueError"
    using sample_result[of R rb T w] by simp
qed

text \<open>
  An empty buffer with batch size 2, one with batch size - 1, a buffer of three
  experiences with batch size 0, the same with batch size 2, and a buffer of two
  experiences of different shapes with batch size 2.
\<close>

theorem sample_success_condition_witness:
  "len (buffer_with 5 2 []) < rb_batch_size (buffer_with 5 2 []) \<and>
   fst (sample counter_random small_floats (buffer_with 5 2 [])
          (start :: (nat, unit) process)) = Inl ValueError \<and>
   rb_batch_size (buffer_with 5 (- 1) []) < 0 \<and>
   fst (sample counter_random small_floats (buffer_with 5 (- 1) [])
          (start :: (nat, unit) process)) = Inl ValueError \<and>
   sample_contract counter_random \<and>
   rb_batch_size (buffer_with 5 0 (map tagged [1, 2, 3])) = 0 \<and>
   fst (sample counter_random small_floats (buffer_with 5 0 (map tagged [1, 2, 3]))
          (start :: (nat, unit) process)) = Inl ValueError \<and>
   1 \<le> rb_batch_size (buffer_with 5 2 (map tagged [1, 2, 3])) \<and>
   rb_batch_size (buffer_with 5 2 (map tagged [1, 2, 3]))
     \<le> len (buffer_with 5 2 (map tagged [1, 2, 3])) \<and>
   well_shaped (replay_memory (buffer_with 5 2 (map tagged [1, 2, 3]))) \<and>
   (\<exists>b. fst (sample counter_random small_floats (buffer_with 5 2 (map tagged [1, 2, 3]))
              (start :: (nat, unit) process)) = Inr b) \<and>
   1 \<le> rb_batch_size (buffer_with 5 2 [ragged 1, ragged 2]) \<and>
   rb_batch_size (buffer_with 5 2 [ragged 1, ragged 2])
     \<le> len (buffer_with 5 2 [ragged 1, ragged 2]) \<and>
   \<not> well_shaped (map (\<lambda>p. replay_memory (buffer_with 5 2 [ragged 1, ragged 2]) ! p)
         (sample_positions counter_random (buffer_with 5 2 [ragged 1, ragged 2])
            (start :: (nat, unit) process))) \<and>
   fst (sample counter_random small_floats (buffer_with 5 2 [ragged 1, ragged 2])
          (start :: (nat, unit) process)) = Inl ValueError"
proof -
  let ?w = "start :: (nat, unit) process"
  have a: "len (buffer_with 5 2 []) < rb_batch_size (buffer_with 5 2 [])"
    by code_simp
  have b: "rb_batch_size (buffer_with 5 (- 1) []) < 0"
    by code_simp
  have c: "rb_batch_size (buffer_with 5 0 (map tagged [1, 2, 3])) = 0"
    by code_simp
  have d: "1 \<le> rb_batch_size (buffer_with 5 2 (map tagged [1, 2, 3]))"
    "rb_batch_size (buffer_with 5 2 (map tagged [1, 2, 3]))
       \<le> len (buffer_with 5 2 (map tagged [1, 2, 3]))"
    "well_shaped (replay_memory (buffer_with 5 2 (map tagged [1, 2, 3])))"
    by code_simp+
  have e: "1 \<le> rb_batch_size (buffer_with 5 2 [ragged 1, ragged 2])"
    "rb_batch_size (buffer_with 5 2 [ragged 1, ragged 2])
       \<le> len (buffer_with 5 2 [ragged 1, ragged 2])"
    "\<not> well_shaped (map (\<lambda>p. replay_memory (buffer_with 5 2 [ragged 1, ragged 2]) ! p)
         (sample_positions counter_random (buffer_with 5 2 [ragged 1, ragged 2]) ?w))"
    by code_simp+
  note cr = counter_random_contract
  have ra: "fst (sample counter_random small_floats (buffer_with 5 2 []) ?w) = Inl ValueError"
    using a sample_success_condition[of "buffer_with 5 2 []" counter_random small_floats ?w]
    by (elim conjE) simp
  have rb: "fst (sample counter_random small_floats (buffer_with 5 (- 1) []) ?w) = Inl ValueError"
    using b sample_success_condition[of "buffer_with 5 (- 1) []" counter_random small_floats ?w]
    by (elim conjE) simp
  have rc: "fst (sample counter_random small_floats (buffer_with 5 0 (map tagged [1, 2, 3])) ?w)
      = Inl ValueError"
    using c cr sample_success_condition[of "buffer_with 5 0 (map tagged [1, 2, 3])"
        counter_random small_floats ?w]
    by (elim conjE) simp
  have rd: "\<exists>b. fst (sample counter_random small_floats
      (buffer_with 5 2 (map tagged [1, 2, 3])) ?w) = Inr b"
    using d cr sample_success_condition[of "buffer_with 5 2 (map tagged [1, 2, 3])"
        counter_random small_floats ?w]
    by (elim conjE) simp
  have re: "fst (sample counter_random small_floats (buffer_with 5 2 [ragged 1, ragged 2]) ?w)
      = Inl ValueError"
    using e cr sample_success_condition[of "buffer_with 5 2 [ragged 1, ragged 2]"
        counter_random small_floats ?w]
    by (elim conjE) simp
  from a ra b rb cr c rc d rd e re show ?thesis by (intro conjI)
qed

text \<open>
  The claim as stated promises success whenever the length is at least \<open>batch_size\<close>.
  An empty buffer with \<open>batch_size = - 1\<close>, a buffer of three experiences with
  \<open>batch_size = 0\<close> and a buffer of two experiences with state vectors of lengths 2 and 3
  and \<open>batch_size = 2\<close> all satisfy that, and \<open>sample\<close> raises ValueError on each.
\<close>

theorem sample_success_condition_counterexample:
  "rb_batch_size (buffer_with 5 (- 1) []) \<le> len (buffer_with 5 (- 1) []) \<and>
   fst (sample counter_random small_floats (buffer_with 5 (- 1) [])
          (start :: (nat, unit) process)) = Inl ValueError \<and>
   rb_batch_size (buffer_with 5 0 (map tagged [1, 2, 3]))
     \<le> len (buffer_with 5 0 (map tagged [1, 2, 3])) \<and>
   fst (sample counter_random small_floats (buffer_with 5 0 (map tagged [1, 2, 3]))
          (start :: (nat, unit) process)) = Inl ValueError \<and>
   rb_batch_size (buffer_with 5 2 [ragged 2, ragged 3])
     \<le> len (buffer_with 5 2 [ragged 2, ragged 3]) \<and>
   state (ragged 2) = [1, 1] \<and> state (ragged 3) = [1, 1, 1] \<and>
   fst (sample counter_random small_floats (buffer_with 5 2 [ragged 2, ragged 3])
          (start :: (nat, unit) process)) = Inl ValueError"
  by code_simp

section \<open>sample does not change the buffer\<close>

text \<open>
  C9.  A \<open>sample\<close> call leaves the buffer as it was: the same record, hence the same
  stored transitions in the same order and the same length.  This holds for every buffer,
  in particular for one whose length is at least \<open>batch_size\<close>, and also when the call
  raises.
\<close>

theorem sample_leaves_buffer:
  "fst (snd (sample R T rb w)) = rb \<and>
   replay_memory (fst (snd (sample R T rb w))) = replay_memory rb \<and>
   len (fst (snd (sample R T rb w))) = len rb"
  by (simp add: sample_buffer)

text \<open>
  A buffer of three experiences, sampled with batch size 2.
\<close>

theorem sample_leaves_buffer_witness:
  "fst (snd (sample counter_random small_floats (buffer_with 5 2 (map tagged [1, 2, 3]))
       (start :: (nat, unit) process))) = buffer_with 5 2 (map tagged [1, 2, 3]) \<and>
   replay_memory (fst (snd (sample counter_random small_floats
       (buffer_with 5 2 (map tagged [1, 2, 3])) (start :: (nat, unit) process)))) =
     map tagged [1, 2, 3] \<and>
   fst (sample counter_random small_floats (buffer_with 5 2 (map tagged [1, 2, 3]))
       (start :: (nat, unit) process)) =
     Inr ([[1], [2]], [[1], [2]], [[1], [2]], [[1], [2]], [[0], [0]])"
proof -
  have m: "replay_memory (buffer_with 5 2 (map tagged [1, 2, 3])) = map tagged [1, 2, 3]"
    by code_simp
  have r: "fst (sample counter_random small_floats (buffer_with 5 2 (map tagged [1, 2, 3]))
       (start :: (nat, unit) process)) =
     Inr ([[1], [2]], [[1], [2]], [[1], [2]], [[1], [2]], [[0], [0]])"
    by code_simp
  show ?thesis
    using m r sample_leaves_buffer[of counter_random small_floats
        "buffer_with 5 2 (map tagged [1, 2, 3])" "start :: (nat, unit) process"]
    by simp
qed

section \<open>act with one state per agent\<close>

text \<open>
  C7.  In a coordinator with one agent per index (\<open>agents_match\<close>), \<open>act\<close> on a list
  of exactly \<open>num_agents\<close> states returns exactly \<open>num_agents\<close> actions, and the action at
  index \<open>i\<close> is what the \<open>act\<close> method of agent \<open>i\<close> returns for \<open>states[i]\<close> and the given
  \<open>add_noise\<close>.
\<close>

theorem act_index_aligned:
  assumes "agents_match m" and "int (length states) = num_agents m"
  shows "length (fst (act A m states add_noise)) = nat (num_agents m) \<and>
         (\<forall>i < nat (num_agents m).
            fst (act A m states add_noise) ! i =
              fst (Agent_act A (agents m ! i) (states ! i) add_noise))"
proof -
  from assms have l: "length states = nat (num_agents m)" "length (agents m) = nat (num_agents m)"
    by (simp_all add: agents_match_def)
  then show ?thesis by (simp add: act_length act_nth)
qed

text \<open>
  Three agents with counts 10, 20 and 30 and the states 5, 6, 7: the counting agent
  answers state plus count.
\<close>

theorem act_index_aligned_witness:
  "agents_match ((coordinator 3 10 2 5 [])\<lparr>agents := [10, 20, 30]\<rparr>) \<and>
   int (length [[5], [6], [7 :: nat]]) =
     num_agents ((coordinator 3 10 2 5 [])\<lparr>agents := [10, 20, 30]\<rparr>) \<and>
   fst (act counting_agent ((coordinator 3 10 2 5 [])\<lparr>agents := [10, 20, 30]\<rparr>)
          [[5], [6], [7]] True) = [[15], [26], [37]] \<and>
   length (fst (act counting_agent ((coordinator 3 10 2 5 [])\<lparr>agents := [10, 20, 30]\<rparr>)
                 [[5], [6], [7]] True)) = 3"
proof -
  let ?m = "(coordinator 3 10 2 5 [])\<lparr>agents := [10, 20, 30]\<rparr>"
  have h1: "agents_match ?m"
    by (simp add: agents_match_def coordinator_def)
  have h2: "int (length [[5], [6], [7 :: nat]]) = num_agents ?m"
    by (simp add: coordinator_def)
  have v: "fst (act counting_agent ?m [[5], [6], [7]] True) = [[15], [26], [37]]"
    by code_simp
  have n: "nat (num_agents ?m) = 3"
    by (simp add: coordinator_def)
  show ?thesis
    using h1 h2 v n act_index_aligned[OF h1 h2, of counting_agent True] by simp
qed

section \<open>act with fewer states than agents\<close>

text \<open>
  C10.  \<open>act\<close> on a list of fewer than \<open>num_agents\<close> states returns one action per state
  given, the action at index \<open>i\<close> being that of agent \<open>i\<close> for \<open>states[i]\<close>, and leaves the
  agents after the last state untouched.  \<open>act\<close> has no failing branch: the loop over
  \<^verbatim>\<open>zip(states, self.agents)\<close> ends with the shorter list and nothing checks the lengths.
\<close>

theorem act_short_states:
  assumes "agents_match m" and "int (length states) < num_agents m"
  shows "length (fst (act A m states add_noise)) = length states \<and>
         (\<forall>i < length states.
            fst (act A m states add_noise) ! i =
              fst (Agent_act A (agents m ! i) (states ! i) add_noise)) \<and>
         drop (length states) (agents (snd (act A m states add_noise)))
           = drop (length states) (agents m)"
proof -
  from assms have l: "length states < length (agents m)"
    by (simp add: agents_match_def)
  then show ?thesis by (simp add: act_length act_nth act_agents)
qed

text \<open>
  Three agents and the two states 5 and 6.
\<close>

theorem act_short_states_witness:
  "agents_match ((coordinator 3 10 2 5 [])\<lparr>agents := [10, 20, 30]\<rparr>) \<and>
   int (length [[5], [6 :: nat]]) <
     num_agents ((coordinator 3 10 2 5 [])\<lparr>agents := [10, 20, 30]\<rparr>) \<and>
   act counting_agent ((coordinator 3 10 2 5 [])\<lparr>agents := [10, 20, 30]\<rparr>) [[5], [6]] True
     = ([[15], [26]], (coordinator 3 10 2 5 [])\<lparr>agents := [10, 20, 30]\<rparr>) \<and>
   length (fst (act counting_agent ((coordinator 3 10 2 5 [])\<lparr>agents := [10, 20, 30]\<rparr>)
                 [[5], [6]] True)) = length [[5], [6 :: nat]]"
proof -
  let ?m = "(coordinator 3 10 2 5 [])\<lparr>agents := [10, 20, 30]\<rparr>"
  have h1: "agents_match ?m"
    by (simp add: agents_match_def coordinator_def)
  have h2: "int (length [[5], [6 :: nat]]) < num_agents ?m"
    by (simp add: coordinator_def)
  have v: "act counting_agent ?m [[5], [6]] True = ([[15], [26]], ?m)"
    by code_simp
  show ?thesis
    using h1 h2 v act_short_states[OF h1 h2, of counting_agent True] by simp
qed

section \<open>The transitions a step stores\<close>

text \<open>
  C6.  A \<open>step\<close> call whose five sequences have length \<open>num_agents\<close> performs exactly
  \<open>num_agents\<close> \<open>add\<close> calls on the one buffer \<open>memory\<close>, in ascending order of the agent
  index, the \<open>i\<close>-th with \<open>(states[i], actions[i], rewards[i], next_states[i], dones[i])\<close>:
  the memory after the call is the memory before it with these experiences added in this
  order, the log of the call starts with these \<open>add\<close> calls, and no other \<open>add\<close> call
  follows.  This holds whether or not the call goes on to train, and also when a later
  \<open>sample\<close> raises.
\<close>

theorem step_stores_transitions:
  assumes "length states = nat (num_agents m)" "length actions = nat (num_agents m)"
    "length rewards = nat (num_agents m)" "length next_states = nat (num_agents m)"
    "length dones = nat (num_agents m)"
  shows "memory (fst (snd (step A R T m states actions rewards next_states dones w))) =
           add_all (memory m)
             (step_experiences states actions rewards next_states dones (nat (num_agents m))) \<and>
         (\<exists>cs. calls (snd (snd (step A R T m states actions rewards next_states dones w))) =
                 calls w @
                 map Call_add
                   (step_experiences states actions rewards next_states dones (nat (num_agents m)))
                 @ cs \<and>
               (\<forall>c \<in> set cs. \<not> is_add c)) \<and>
         length (step_experiences states actions rewards next_states dones (nat (num_agents m)))
           = nat (num_agents m) \<and>
         (\<forall>i < nat (num_agents m).
            step_experiences states actions rewards next_states dones (nat (num_agents m)) ! i =
              \<lparr>state = states ! i, action = actions ! i, reward = rewards ! i,
               next_state = next_states ! i, done_flag = dones ! i\<rparr>)"
proof -
  let ?k = "nat (num_agents m)"
  let ?es = "step_experiences states actions rewards next_states dones ?k"
  have le: "?k \<le> length states" "?k \<le> length actions" "?k \<le> length rewards"
    "?k \<le> length next_states" "?k \<le> length dones"
    using assms by simp_all
  have mem: "memory (fst (snd (step A R T m states actions rewards next_states dones w))) =
      add_all (memory m) ?es"
    by (rule step_memory[OF le])
  have log: "\<exists>cs. calls (snd (snd (step A R T m states actions rewards next_states dones w))) =
      calls w @ map Call_add ?es @ cs \<and> (\<forall>c \<in> set cs. \<not> is_add c)"
  proof (cases "minsamples_before_train m < len (add_all (memory m) ?es)")
    case True
    from train_loop_frame[of A R T ?k "m\<lparr>memory := add_all (memory m) ?es\<rparr>"
        "w\<lparr>calls := calls w @ map Call_add ?es\<rparr>"]
    obtain cs where "calls (snd (snd (train_loop A R T ?k (m\<lparr>memory := add_all (memory m) ?es\<rparr>)
        (w\<lparr>calls := calls w @ map Call_add ?es\<rparr>)))) = (calls w @ map Call_add ?es) @ cs"
      "\<forall>c \<in> set cs. \<not> is_add c"
      by auto
    then show ?thesis unfolding step_unfold[OF le] using True by auto
  next
    case False
    then show ?thesis unfolding step_unfold[OF le] by simp
  qed
  have ex: "length ?es = ?k \<and> (\<forall>i < ?k. ?es ! i =
      \<lparr>state = states ! i, action = actions ! i, reward = rewards ! i,
       next_state = next_states ! i, done_flag = dones ! i\<rparr>)"
    by (simp add: step_experiences_def)
  from mem log ex show ?thesis by blast
qed

text \<open>
  Two agents and a buffer of capacity 3 that holds two experiences: the two new experiences
  are appended in order and the oldest stored one is evicted.
\<close>

theorem step_stores_transitions_witness:
  "length [[7], [17 :: nat]] = nat (num_agents (coordinator 2 3 2 5 [tagged 1, tagged 2])) \<and>
   length [[8], [18 :: nat]] = nat (num_agents (coordinator 2 3 2 5 [tagged 1, tagged 2])) \<and>
   length [9, 19 :: nat] = nat (num_agents (coordinator 2 3 2 5 [tagged 1, tagged 2])) \<and>
   length [[70], [170 :: nat]] = nat (num_agents (coordinator 2 3 2 5 [tagged 1, tagged 2])) \<and>
   length [False, True] = nat (num_agents (coordinator 2 3 2 5 [tagged 1, tagged 2])) \<and>
   replay_memory (memory (fst (snd (step counting_agent counter_random small_floats
       (coordinator 2 3 2 5 [tagged 1, tagged 2])
       [[7], [17]] [[8], [18]] [9, 19] [[70], [170]] [False, True] start)))) =
     [tagged 2,
      \<lparr>state = [7], action = [8], reward = 9, next_state = [70], done_flag = False\<rparr>,
      \<lparr>state = [17], action = [18], reward = 19, next_state = [170], done_flag = True\<rparr>] \<and>
   calls (snd (snd (step counting_agent counter_random small_floats
       (coordinator 2 3 2 5 [tagged 1, tagged 2])
       [[7], [17]] [[8], [18]] [9, 19] [[70], [170]] [False, True] start))) =
     [Call_add \<lparr>state = [7], action = [8], reward = 9, next_state = [70], done_flag = False\<rparr>,
      Call_add \<lparr>state = [17], action = [18], reward = 19, next_state = [170], done_flag = True\<rparr>]"
proof -
  let ?m = "coordinator 2 3 2 5 [tagged 1, tagged 2]"
  let ?s = "step counting_agent counter_random small_floats ?m
      [[7], [17]] [[8], [18]] [9, 19] [[70], [170]] [False, True] start"
  have l: "length [[7], [17 :: nat]] = nat (num_agents ?m)"
    "length [[8], [18 :: nat]] = nat (num_agents ?m)"
    "length [9, 19 :: nat] = nat (num_agents ?m)"
    "length [[70], [170 :: nat]] = nat (num_agents ?m)"
    "length [False, True] = nat (num_agents ?m)"
    by (simp_all add: coordinator_def)
  have v: "replay_memory (add_all (memory ?m)
      (step_experiences [[7], [17 :: nat]] [[8], [18]] [9, 19] [[70], [170]] [False, True]
         (nat (num_agents ?m)))) =
     [tagged 2,
      \<lparr>state = [7], action = [8], reward = 9, next_state = [70], done_flag = False\<rparr>,
      \<lparr>state = [17], action = [18], reward = 19, next_state = [170], done_flag = True\<rparr>]"
    by code_simp
  have c: "calls (snd (snd ?s)) =
     [Call_add \<lparr>state = [7], action = [8], reward = 9, next_state = [70], done_flag = False\<rparr>,
      Call_add \<lparr>state = [17], action = [18], reward = 19, next_state = [170], done_flag = True\<rparr>]"
    by code_simp
  from step_stores_transitions[OF l, of counting_agent counter_random small_floats start]
  have "replay_memory (memory (fst (snd ?s))) =
     [tagged 2,
      \<lparr>state = [7], action = [8], reward = 9, next_state = [70], done_flag = False\<rparr>,
      \<lparr>state = [17], action = [18], reward = 19, next_state = [170], done_flag = True\<rparr>]"
    using v by simp
  with l c show ?thesis by (intro conjI)
qed

section \<open>Warm-up and training\<close>

text \<open>
  C1, as amended.  Take a coordinator with one agent per index and a \<open>step\<close> call whose
  five sequences have length \<open>num_agents\<close>.  If the buffer length after the call is at most
  \<open>minsamples_before_train\<close>, the call returns normally, its only calls are the \<open>add\<close>
  calls, and no agent changes.  If the buffer length after the call exceeds
  \<open>minsamples_before_train\<close>, \<open>batch_size\<close> is at least 1 and at most that length, the
  stored experiences are well shaped and \<^verbatim>\<open>random.sample\<close> keeps its contract, the call
  returns normally and performs exactly \<open>num_agents\<close> learning iterations: there are
  \<open>num_agents\<close> batches such that the calls after the \<open>add\<close> calls are, for each batch in
  turn, one \<open>sample\<close> call returning it, one \<open>learn\<close> call of the coordinator with it and
  one \<open>learn\<close> call of every agent with it, and every agent ends as its own \<open>learn\<close>
  method leaves it after these batches in this order.  The constructor returns a
  coordinator with one agent per index, and \<open>act\<close> and \<open>step\<close> keep it so; hence the
  statement covers every \<open>step\<close> call of every sequence of calls on a constructed
  coordinator.
\<close>

theorem step_warmup_gating:
  assumes "agents_match m"
    and "length states = nat (num_agents m)" "length actions = nat (num_agents m)"
    "length rewards = nat (num_agents m)" "length next_states = nat (num_agents m)"
    "length dones = nat (num_agents m)"
  shows "(len (memory (fst (snd (step A R T m states actions rewards next_states dones w))))
            \<le> minsamples_before_train m \<longrightarrow>
          fst (step A R T m states actions rewards next_states dones w) = None \<and>
          calls (snd (snd (step A R T m states actions rewards next_states dones w))) =
            calls w @ map Call_add
              (step_experiences states actions rewards next_states dones (nat (num_agents m))) \<and>
          agents (fst (snd (step A R T m states actions rewards next_states dones w)))
            = agents m) \<and>
         (sample_contract R \<and>
          minsamples_before_train m <
            len (memory (fst (snd (step A R T m states actions rewards next_states dones w)))) \<and>
          1 \<le> rb_batch_size (memory m) \<and>
          rb_batch_size (memory m) \<le>
            len (memory (fst (snd (step A R T m states actions rewards next_states dones w)))) \<and>
          well_shaped (replay_memory
            (memory (fst (snd (step A R T m states actions rewards next_states dones w))))) \<longrightarrow>
          (\<exists>bs. length bs = nat (num_agents m) \<and>
             fst (step A R T m states actions rewards next_states dones w) = None \<and>
             calls (snd (snd (step A R T m states actions rewards next_states dones w))) =
               calls w @
               map Call_add
                 (step_experiences states actions rewards next_states dones (nat (num_agents m))) @
               concat (map (iteration_calls (nat (num_agents m))) bs) \<and>
             agents (fst (snd (step A R T m states actions rewards next_states dones w))) =
               map (\<lambda>agent. foldl (\<lambda>ag b. Agent_learn A ag b (gamma m)) agent bs) (agents m)))"
proof (intro conjI impI)
  let ?k = "nat (num_agents m)"
  let ?es = "step_experiences states actions rewards next_states dones ?k"
  let ?s = "step A R T m states actions rewards next_states dones w"
  have le: "?k \<le> length states" "?k \<le> length actions" "?k \<le> length rewards"
    "?k \<le> length next_states" "?k \<le> length dones"
    using assms by simp_all
  note mem = step_memory[OF le, of A R T w]
  {
    assume "len (memory (fst (snd ?s))) \<le> minsamples_before_train m"
    then have "\<not> minsamples_before_train m < len (add_all (memory m) ?es)"
      unfolding mem by simp
    then have st: "?s = (None, m\<lparr>memory := add_all (memory m) ?es\<rparr>,
        w\<lparr>calls := calls w @ map Call_add ?es\<rparr>)"
      unfolding step_unfold[OF le] by simp
    show "fst ?s = None" "calls (snd (snd ?s)) = calls w @ map Call_add ?es"
      "agents (fst (snd ?s)) = agents m"
      unfolding st by simp_all
  }
  {
    assume a: "sample_contract R \<and> minsamples_before_train m < len (memory (fst (snd ?s))) \<and>
      1 \<le> rb_batch_size (memory m) \<and> rb_batch_size (memory m) \<le> len (memory (fst (snd ?s))) \<and>
      well_shaped (replay_memory (memory (fst (snd ?s))))"
    from step_training[OF _ assms(1) le, of R A T w] a obtain bs where
      "length bs = ?k" "fst ?s = None"
      "calls (snd (snd ?s)) = calls w @ map Call_add ?es @ concat (map (iteration_calls ?k) bs)"
      "agents (fst (snd ?s)) =
         map (\<lambda>agent. foldl (\<lambda>ag b. Agent_learn A ag b (gamma m)) agent bs) (agents m)"
      by blast
    then show "\<exists>bs. length bs = ?k \<and> fst ?s = None \<and>
        calls (snd (snd ?s)) = calls w @ map Call_add ?es @ concat (map (iteration_calls ?k) bs) \<and>
        agents (fst (snd ?s)) =
          map (\<lambda>agent. foldl (\<lambda>ag b. Agent_learn A ag b (gamma m)) agent bs) (agents m)"
      by blast
  }
qed

text \<open>
  Two agents and batch size 2: with threshold 5 the step only records, with threshold 1
  it trains and both agents learn twice.
\<close>

theorem step_warmup_gating_witness:
  "agents_match (coordinator 2 10 2 5 [tagged 1]) \<and>
   length [[7], [17 :: nat]] = nat (num_agents (coordinator 2 10 2 5 [tagged 1])) \<and>
   len (memory (fst (snd (step counting_agent counter_random small_floats
          (coordinator 2 10 2 5 [tagged 1])
          [[7], [17]] [[8], [18]] [9, 19] [[70], [170]] [False, True] start))))
     \<le> minsamples_before_train (coordinator 2 10 2 5 [tagged 1]) \<and>
   fst (step counting_agent counter_random small_floats (coordinator 2 10 2 5 [tagged 1])
          [[7], [17]] [[8], [18]] [9, 19] [[70], [170]] [False, True] start) = None \<and>
   calls (snd (snd (step counting_agent counter_random small_floats
          (coordinator 2 10 2 5 [tagged 1])
          [[7], [17]] [[8], [18]] [9, 19] [[70], [170]] [False, True] start))) =
     [Call_add \<lparr>state = [7], action = [8], reward = 9, next_state = [70], done_flag = False\<rparr>,
      Call_add \<lparr>state = [17], action = [18], reward = 19, next_state = [170], done_flag = True\<rparr>] \<and>
   agents (fst (snd (step counting_agent counter_random small_floats
          (coordinator 2 10 2 5 [tagged 1])
          [[7], [17]] [[8], [18]] [9, 19] [[70], [170]] [False, True] start))) = [0, 0] \<and>
   sample_contract counter_random \<and>
   agents_match (coordinator 2 10 2 1 [tagged 1]) \<and>
   minsamples_before_train (coordinator 2 10 2 1 [tagged 1]) <
     len (memory (fst (snd (step counting_agent counter_random small_floats
          (coordinator 2 10 2 1 [tagged 1])
          [[7], [17]] [[8], [18]] [9, 19] [[70], [170]] [False, True] start)))) \<and>
   1 \<le> rb_batch_size (memory (coordinator 2 10 2 1 [tagged 1])) \<and>
   rb_batch_size (memory (coordinator 2 10 2 1 [tagged 1])) \<le>
     len (memory (fst (snd (step counting_agent counter_random small_floats
          (coordinator 2 10 2 1 [tagged 1])
          [[7], [17]] [[8], [18]] [9, 19] [[70], [170]] [False, True] start)))) \<and>
   well_shaped (replay_memory (memory (fst (snd (step counting_agent counter_random small_floats
          (coordinator 2 10 2 1 [tagged 1])
          [[7], [17]] [[8], [18]] [9, 19] [[70], [170]] [False, True] start))))) \<and>
   (\<exists>bs. length bs = 2 \<and>
      fst (step counting_agent counter_random small_floats (coordinator 2 10 2 1 [tagged 1])
          [[7], [17]] [[8], [18]] [9, 19] [[70], [170]] [False, True] start) = None \<and>
      calls (snd (snd (step counting_agent counter_random small_floats
          (coordinator 2 10 2 1 [tagged 1])
          [[7], [17]] [[8], [18]] [9, 19] [[70], [170]] [False, True] start))) =
        [Call_add \<lparr>state = [7], action = [8], reward = 9, next_state = [70], done_flag = False\<rparr>,
         Call_add \<lparr>state = [17], action = [18], reward = 19, next_state = [170],
                   done_flag = True\<rparr>] @
        concat (map (iteration_calls 2) bs) \<and>
      agents (fst (snd (step counting_agent counter_random small_floats
          (coordinator 2 10 2 1 [tagged 1])
          [[7], [17]] [[8], [18]] [9, 19] [[70], [170]] [False, True] start))) =
        map (\<lambda>agent. foldl (\<lambda>ag b. Agent_learn counting_agent ag b 99) agent bs) [0, 0]) \<and>
   agents (fst (snd (step counting_agent counter_random small_floats
          (coordinator 2 10 2 1 [tagged 1])
          [[7], [17]] [[8], [18]] [9, 19] [[70], [170]] [False, True] start))) = [2, 2]"
proof -
  let ?u = "coordinator 2 10 2 5 [tagged 1]"
  let ?t = "coordinator 2 10 2 1 [tagged 1]"
  let ?su = "step counting_agent counter_random small_floats ?u
      [[7], [17]] [[8], [18]] [9, 19] [[70], [170]] [False, True] start"
  let ?st = "step counting_agent counter_random small_floats ?t
      [[7], [17]] [[8], [18]] [9, 19] [[70], [170]] [False, True] start"
  have u1: "agents_match ?u" by (simp add: agents_match_def coordinator_def)
  have u2: "length [[7], [17 :: nat]] = nat (num_agents ?u)"
    "length [[8], [18 :: nat]] = nat (num_agents ?u)"
    "length [9, 19 :: nat] = nat (num_agents ?u)"
    "length [[70], [170 :: nat]] = nat (num_agents ?u)"
    "length [False, True] = nat (num_agents ?u)"
    by (simp_all add: coordinator_def)
  have u3: "len (memory (fst (snd ?su))) \<le> minsamples_before_train ?u" by code_simp
  have u4: "step_experiences [[7], [17 :: nat]] [[8], [18]] [9, 19] [[70], [170]] [False, True]
      (nat (num_agents ?u)) =
     [\<lparr>state = [7], action = [8], reward = 9, next_state = [70], done_flag = False\<rparr>,
      \<lparr>state = [17], action = [18], reward = 19, next_state = [170], done_flag = True\<rparr>]"
    by code_simp
  have u5: "agents ?u = [0, 0]" by code_simp
  note h = training_step_hyps
  have n: "nat (num_agents ?t) = 2" "agents ?t = [0, 0]" "gamma ?t = 99"
    "calls (start :: (nat, (nat, nat) call) process) = []"
    by (simp_all add: coordinator_def start_def eval_nat_numeral)
  have e: "step_experiences [[7], [17 :: nat]] [[8], [18]] [9, 19] [[70], [170]] [False, True] 2 =
     [\<lparr>state = [7], action = [8], reward = 9, next_state = [70], done_flag = False\<rparr>,
      \<lparr>state = [17], action = [18], reward = 19, next_state = [170], done_flag = True\<rparr>]"
    by code_simp
  note tu = step_warmup_gating[OF u1 u2, of counting_agent counter_random small_floats start]
  note tt = step_warmup_gating[of ?t "[[7], [17]]" "[[8], [18]]" "[9, 19]" "[[70], [170]]"
      "[False, True]" counting_agent counter_random small_floats start]
  from tu u3 have cu: "fst ?su = None" "calls (snd (snd ?su)) =
     [Call_add \<lparr>state = [7], action = [8], reward = 9, next_state = [70], done_flag = False\<rparr>,
      Call_add \<lparr>state = [17], action = [18], reward = 19, next_state = [170], done_flag = True\<rparr>]"
    "agents (fst (snd ?su)) = [0, 0]"
    unfolding u4 u5 n by simp_all
  from tt h have ct: "\<exists>bs. length bs = 2 \<and> fst ?st = None \<and>
      calls (snd (snd ?st)) =
        [Call_add \<lparr>state = [7], action = [8], reward = 9, next_state = [70], done_flag = False\<rparr>,
         Call_add \<lparr>state = [17], action = [18], reward = 19, next_state = [170],
                   done_flag = True\<rparr>] @
        concat (map (iteration_calls 2) bs) \<and>
      agents (fst (snd ?st)) =
        map (\<lambda>agent. foldl (\<lambda>ag b. Agent_learn counting_agent ag b 99) agent bs) [0, 0]"
    unfolding n e by simp
  have ag: "agents (fst (snd ?st)) = [2, 2]"
    unfolding training_step_value by simp
  from h have h': "sample_contract counter_random" "agents_match ?t"
    "minsamples_before_train ?t < len (memory (fst (snd ?st)))"
    "1 \<le> rb_batch_size (memory ?t)"
    "rb_batch_size (memory ?t) \<le> len (memory (fst (snd ?st)))"
    "well_shaped (replay_memory (memory (fst (snd ?st))))"
    by simp_all
  from u1 u2(1) u3 cu h' ct ag show ?thesis by (intro conjI)
qed

text \<open>
  The claim as stated has no condition on \<open>batch_size\<close> or on the shapes.  Three
  coordinators built by the constructor, each passing the threshold with its first \<open>step\<close>
  and ending with ValueError from the first \<open>sample\<close>, without any \<open>learn\<close> call: one
  agent with \<open>batch_size = 2\<close> and threshold 0, where the buffer holds one experience; one
  agent with \<open>batch_size = 0\<close> and threshold 0; and three agents with \<open>batch_size = 2\<close> and
  threshold 2 whose state vectors have the lengths 1, 2 and 3.
\<close>

theorem step_warmup_gating_counterexample:
  "MADDPG_init counting_agent counter_random 1 1 1 (Some 0) 10 2 99 0 0
       (start :: (nat, (nat, nat) call) process) = (Inr (coordinator 1 10 2 0 []), start) \<and>
   step counting_agent counter_random small_floats (coordinator 1 10 2 0 [])
       [[7]] [[8]] [9] [[70]] [False] start =
     (Some ValueError,
      coordinator 1 10 2 0
        [\<lparr>state = [7], action = [8], reward = 9, next_state = [70], done_flag = False\<rparr>],
      start\<lparr>calls :=
        [Call_add \<lparr>state = [7], action = [8], reward = 9, next_state = [70], done_flag = False\<rparr>,
         Call_sample (Inl ValueError)]\<rparr>) \<and>
   minsamples_before_train (coordinator 1 10 2 0 []) <
     len (memory (coordinator 1 10 2 0
        [\<lparr>state = [7], action = [8], reward = 9, next_state = [70], done_flag = False\<rparr>])) \<and>
   MADDPG_init counting_agent counter_random 1 1 1 (Some 0) 10 0 99 0 0
       (start :: (nat, (nat, nat) call) process) = (Inr (coordinator 1 10 0 0 []), start) \<and>
   step counting_agent counter_random small_floats (coordinator 1 10 0 0 [])
       [[7]] [[8]] [9] [[70]] [False] start =
     (Some ValueError,
      coordinator 1 10 0 0
        [\<lparr>state = [7], action = [8], reward = 9, next_state = [70], done_flag = False\<rparr>],
      start\<lparr>calls :=
        [Call_add \<lparr>state = [7], action = [8], reward = 9, next_state = [70], done_flag = False\<rparr>,
         Call_sample (Inl ValueError)]\<rparr>) \<and>
   minsamples_before_train (coordinator 1 10 0 0 []) <
     len (memory (coordinator 1 10 0 0
        [\<lparr>state = [7], action = [8], reward = 9, next_state = [70], done_flag = False\<rparr>])) \<and>
   MADDPG_init counting_agent counter_random 3 1 1 (Some 0) 10 2 99 2 0
       (start :: (nat, (nat, nat) call) process) = (Inr (coordinator 3 10 2 2 []), start) \<and>
   fst (step counting_agent counter_random small_floats (coordinator 3 10 2 2 [])
       [[1], [1, 2], [1, 2, 3]] [[8], [8], [8]] [9, 9, 9] [[1], [1, 2], [1, 2, 3]]
       [False, False, False] start) = Some ValueError \<and>
   calls (snd (snd (step counting_agent counter_random small_floats (coordinator 3 10 2 2 [])
       [[1], [1, 2], [1, 2, 3]] [[8], [8], [8]] [9, 9, 9] [[1], [1, 2], [1, 2, 3]]
       [False, False, False] start))) =
     [Call_add \<lparr>state = [1], action = [8], reward = 9, next_state = [1], done_flag = False\<rparr>,
      Call_add \<lparr>state = [1, 2], action = [8], reward = 9, next_state = [1, 2],
                done_flag = False\<rparr>,
      Call_add \<lparr>state = [1, 2, 3], action = [8], reward = 9, next_state = [1, 2, 3],
                done_flag = False\<rparr>,
      Call_sample (Inl ValueError)] \<and>
   minsamples_before_train (coordinator 3 10 2 2 []) <
     len (memory (fst (snd (step counting_agent counter_random small_floats
       (coordinator 3 10 2 2 [])
       [[1], [1, 2], [1, 2, 3]] [[8], [8], [8]] [9, 9, 9] [[1], [1, 2], [1, 2, 3]]
       [False, False, False] start))))"
proof -
  have a: "MADDPG_init counting_agent counter_random 1 1 1 (Some 0) 10 2 99 0 0
       (start :: (nat, (nat, nat) call) process) = (Inr (coordinator 1 10 2 0 []), start)"
    "step counting_agent counter_random small_floats (coordinator 1 10 2 0 [])
       [[7]] [[8]] [9] [[70]] [False] start =
     (Some ValueError,
      coordinator 1 10 2 0
        [\<lparr>state = [7], action = [8], reward = 9, next_state = [70], done_flag = False\<rparr>],
      start\<lparr>calls :=
        [Call_add \<lparr>state = [7], action = [8], reward = 9, next_state = [70], done_flag = False\<rparr>,
         Call_sample (Inl ValueError)]\<rparr>)"
    "minsamples_before_train (coordinator 1 10 2 0 []) <
     len (memory (coordinator 1 10 2 0
        [\<lparr>state = [7], action = [8], reward = 9, next_state = [70], done_flag = False\<rparr>]))"
    by code_simp+
  have b: "MADDPG_init counting_agent counter_random 1 1 1 (Some 0) 10 0 99 0 0
       (start :: (nat, (nat, nat) call) process) = (Inr (coordinator 1 10 0 0 []), start)"
    "step counting_agent counter_random small_floats (coordinator 1 10 0 0 [])
       [[7]] [[8]] [9] [[70]] [False] start =
     (Some ValueError,
      coordinator 1 10 0 0
        [\<lparr>state = [7], action = [8], reward = 9, next_state = [70], done_flag = False\<rparr>],
      start\<lparr>calls :=
        [Call_add \<lparr>state = [7], action = [8], reward = 9, next_state = [70], done_flag = False\<rparr>,
         Call_sample (Inl ValueError)]\<rparr>)"
    "minsamples_before_train (coordinator 1 10 0 0 []) <
     len (memory (coordinator 1 10 0 0
        [\<lparr>state = [7], action = [8], reward = 9, next_state = [70], done_flag = False\<rparr>]))"
    by code_simp+
  have c: "MADDPG_init counting_agent counter_random 3 1 1 (Some 0) 10 2 99 2 0
       (start :: (nat, (nat, nat) call) process) = (Inr (coordinator 3 10 2 2 []), start)"
    "fst (step counting_agent counter_random small_floats (coordinator 3 10 2 2 [])
       [[1], [1, 2], [1, 2, 3]] [[8], [8], [8]] [9, 9, 9] [[1], [1, 2], [1, 2, 3]]
       [False, False, False] start) = Some ValueError"
    "calls (snd (snd (step counting_agent counter_random small_floats (coordinator 3 10 2 2 [])
       [[1], [1, 2], [1, 2, 3]] [[8], [8], [8]] [9, 9, 9] [[1], [1, 2], [1, 2, 3]]
       [False, False, False] start))) =
     [Call_add \<lparr>state = [1], action = [8], reward = 9, next_state = [1], done_flag = False\<rparr>,
      Call_add \<lparr>state = [1, 2], action = [8], reward = 9, next_state = [1, 2],
                done_flag = False\<rparr>,
      Call_add \<lparr>state = [1, 2, 3], action = [8], reward = 9, next_state = [1, 2, 3],
                done_flag = False\<rparr>,
      Call_sample (Inl ValueError)]"
    "minsamples_before_train (coordinator 3 10 2 2 []) <
     len (memory (fst (snd (step counting_agent counter_random small_floats
       (coordinator 3 10 2 2 [])
       [[1], [1, 2], [1, 2, 3]] [[8], [8], [8]] [9, 9, 9] [[1], [1, 2], [1, 2, 3]]
       [False, False, False] start))))"
    by code_simp+
  from a b c show ?thesis by (intro conjI)
qed

section \<open>The calls of a training step\<close>

text \<open>
  C2, as amended.  Take a coordinator with \<open>k = num_agents\<close> agents, one per index, and a
  \<open>step\<close> call with sequences of length \<open>k\<close> after which the buffer length exceeds
  \<open>minsamples_before_train\<close>, with \<open>batch_size\<close> at least 1 and at most that length, the
  stored experiences well shaped and \<^verbatim>\<open>random.sample\<close> keeping its contract.  Then there
  are \<open>k\<close> batches, which are the results of \<open>k\<close> successive \<open>sample\<close> calls on the buffer,
  each call drawing afresh from the generator state the call before it left, and each
  batch consists of experiences at pairwise distinct positions of the buffer.  The calls
  of the step are the \<open>k\<close> \<open>add\<close> calls followed, for each batch in turn, by the \<open>sample\<close>
  call that returns it, the \<open>learn\<close> call of the coordinator with it, and the \<open>learn\<close>
  calls of agents \<open>0, \<dots>, k - 1\<close>, all with that same batch.  Every agent ends as its own
  \<open>learn\<close> method leaves it after the \<open>k\<close> batches in this order, and the generator ends
  in the state the \<open>k\<close> \<open>sample\<close> calls leave.
\<close>

theorem step_learning_iterations:
  assumes "sample_contract R" and "agents_match m"
    and "length states = nat (num_agents m)" "length actions = nat (num_agents m)"
    "length rewards = nat (num_agents m)" "length next_states = nat (num_agents m)"
    "length dones = nat (num_agents m)"
    and "minsamples_before_train m <
           len (memory (fst (snd (step A R T m states actions rewards next_states dones w))))"
    and "1 \<le> rb_batch_size (memory m)"
    and "rb_batch_size (memory m) \<le>
           len (memory (fst (snd (step A R T m states actions rewards next_states dones w))))"
    and "well_shaped (replay_memory
           (memory (fst (snd (step A R T m states actions rewards next_states dones w)))))"
  shows "\<exists>bs. length bs = nat (num_agents m) \<and>
           map Inr bs =
             fst (run_calls R T (replicate (nat (num_agents m)) Do_sample)
                    (memory (fst (snd (step A R T m states actions rewards next_states dones w))))
                    w) \<and>
           (\<forall>b \<in> set bs. drawn_from T
               (memory (fst (snd (step A R T m states actions rewards next_states dones w)))) b) \<and>
           fst (step A R T m states actions rewards next_states dones w) = None \<and>
           agents (fst (snd (step A R T m states actions rewards next_states dones w))) =
             map (\<lambda>agent. foldl (\<lambda>ag b. Agent_learn A ag b (gamma m)) agent bs) (agents m) \<and>
           calls (snd (snd (step A R T m states actions rewards next_states dones w))) =
             calls w @
             map Call_add
               (step_experiences states actions rewards next_states dones (nat (num_agents m))) @
             concat (map (iteration_calls (nat (num_agents m))) bs) \<and>
           random_state (snd (snd (step A R T m states actions rewards next_states dones w))) =
             random_state (snd (snd
               (run_calls R T (replicate (nat (num_agents m)) Do_sample)
                  (memory (fst (snd (step A R T m states actions rewards next_states dones w))))
                  w)))"
proof -
  have le: "nat (num_agents m) \<le> length states" "nat (num_agents m) \<le> length actions"
    "nat (num_agents m) \<le> length rewards" "nat (num_agents m) \<le> length next_states"
    "nat (num_agents m) \<le> length dones"
    using assms(3-7) by simp_all
  show ?thesis by (rule step_training[OF assms(1,2) le assms(8-11)])
qed

text \<open>
  The training step of two agents evaluated above: two iterations, the second batch
  drawn from the generator state the first draw left, each batch handed to both
  agents.
\<close>

theorem step_learning_iterations_witness:
  "sample_contract counter_random \<and>
   agents_match (coordinator 2 10 2 1 [tagged 1]) \<and>
   length [[7], [17 :: nat]] = nat (num_agents (coordinator 2 10 2 1 [tagged 1])) \<and>
   minsamples_before_train (coordinator 2 10 2 1 [tagged 1]) <
     len (memory (fst (snd (step counting_agent counter_random small_floats
          (coordinator 2 10 2 1 [tagged 1])
          [[7], [17]] [[8], [18]] [9, 19] [[70], [170]] [False, True] start)))) \<and>
   1 \<le> rb_batch_size (memory (coordinator 2 10 2 1 [tagged 1])) \<and>
   rb_batch_size (memory (coordinator 2 10 2 1 [tagged 1])) \<le>
     len (memory (fst (snd (step counting_agent counter_random small_floats
          (coordinator 2 10 2 1 [tagged 1])
          [[7], [17]] [[8], [18]] [9, 19] [[70], [170]] [False, True] start)))) \<and>
   well_shaped (replay_memory (memory (fst (snd (step counting_agent counter_random small_floats
          (coordinator 2 10 2 1 [tagged 1])
          [[7], [17]] [[8], [18]] [9, 19] [[70], [170]] [False, True] start))))) \<and>
   (\<exists>bs. length bs = 2 \<and>
      map Inr bs =
        [Inr ([[1], [7]], [[1], [8]], [[1], [9]], [[1], [70]], [[0], [0]]),
         Inr ([[17], [1]], [[18], [1]], [[19], [1]], [[170], [1]], [[1], [0]])] \<and>
      calls (snd (snd (step counting_agent counter_random small_floats
          (coordinator 2 10 2 1 [tagged 1])
          [[7], [17]] [[8], [18]] [9, 19] [[70], [170]] [False, True] start))) =
        [Call_add \<lparr>state = [7], action = [8], reward = 9, next_state = [70], done_flag = False\<rparr>,
         Call_add \<lparr>state = [17], action = [18], reward = 19, next_state = [170],
                   done_flag = True\<rparr>] @
        concat (map (iteration_calls 2) bs)) \<and>
   fst (run_calls counter_random small_floats [Do_sample, Do_sample]
          (memory (fst (snd (step counting_agent counter_random small_floats
             (coordinator 2 10 2 1 [tagged 1])
             [[7], [17]] [[8], [18]] [9, 19] [[70], [170]] [False, True] start))))
          (start :: (nat, (nat, nat) call) process)) =
     [Inr ([[1], [7]], [[1], [8]], [[1], [9]], [[1], [70]], [[0], [0]]),
      Inr ([[17], [1]], [[18], [1]], [[19], [1]], [[170], [1]], [[1], [0]])] \<and>
   agents (fst (snd (step counting_agent counter_random small_floats
          (coordinator 2 10 2 1 [tagged 1])
          [[7], [17]] [[8], [18]] [9, 19] [[70], [170]] [False, True] start))) = [2, 2]"
proof -
  let ?t = "coordinator 2 10 2 1 [tagged 1]"
  let ?st = "step counting_agent counter_random small_floats ?t
      [[7], [17]] [[8], [18]] [9, 19] [[70], [170]] [False, True] start"
  let ?m' = "(coordinator 2 10 2 1 [tagged 1,
          \<lparr>state = [7], action = [8], reward = 9, next_state = [70], done_flag = False\<rparr>,
          \<lparr>state = [17], action = [18], reward = 19, next_state = [170], done_flag = True\<rparr>])
        \<lparr>agents := [2, 2]\<rparr>"
  note h = training_step_hyps
  have n: "nat (num_agents ?t) = 2"
    "calls (start :: (nat, (nat, nat) call) process) = []"
    by (simp_all add: coordinator_def start_def)
  have r2: "replicate 2 Do_sample = [Do_sample, Do_sample :: nat buffer_call]"
    by (simp add: eval_nat_numeral)
  have e: "step_experiences [[7], [17 :: nat]] [[8], [18]] [9, 19] [[70], [170]] [False, True] 2 =
     [\<lparr>state = [7], action = [8], reward = 9, next_state = [70], done_flag = False\<rparr>,
      \<lparr>state = [17], action = [18], reward = 19, next_state = [170], done_flag = True\<rparr>]"
    by code_simp
  have rc0: "fst (run_calls counter_random small_floats [Do_sample, Do_sample] (memory ?m')
          (start :: (nat, (nat, nat) call) process)) =
     [Inr ([[1], [7]], [[1], [8]], [[1], [9]], [[1], [70]], [[0], [0]]),
      Inr ([[17], [1]], [[18], [1]], [[19], [1]], [[170], [1]], [[1], [0]])]"
    by code_simp
  have rc: "fst (run_calls counter_random small_floats [Do_sample, Do_sample]
          (memory (fst (snd ?st))) (start :: (nat, (nat, nat) call) process)) =
     [Inr ([[1], [7]], [[1], [8]], [[1], [9]], [[1], [70]], [[0], [0]]),
      Inr ([[17], [1]], [[18], [1]], [[19], [1]], [[170], [1]], [[1], [0]])]"
    unfolding training_step_value using rc0 by simp
  from step_learning_iterations[of counter_random ?t "[[7], [17]]" "[[8], [18]]" "[9, 19]"
      "[[70], [170]]" "[False, True]" counting_agent small_floats start] h
  have ex: "\<exists>bs. length bs = 2 \<and>
      map Inr bs =
        [Inr ([[1], [7]], [[1], [8]], [[1], [9]], [[1], [70]], [[0], [0]]),
         Inr ([[17], [1]], [[18], [1]], [[19], [1]], [[170], [1]], [[1], [0]])] \<and>
      calls (snd (snd ?st)) =
        [Call_add \<lparr>state = [7], action = [8], reward = 9, next_state = [70], done_flag = False\<rparr>,
         Call_add \<lparr>state = [17], action = [18], reward = 19, next_state = [170],
                   done_flag = True\<rparr>] @
        concat (map (iteration_calls 2) bs)"
    unfolding n e r2 rc by auto
  have ag: "agents (fst (snd ?st)) = [2, 2]"
    unfolding training_step_value by simp
  from h have h': "sample_contract counter_random" "agents_match ?t"
    "length [[7], [17 :: nat]] = nat (num_agents ?t)"
    "minsamples_before_train ?t < len (memory (fst (snd ?st)))"
    "1 \<le> rb_batch_size (memory ?t)"
    "rb_batch_size (memory ?t) \<le> len (memory (fst (snd ?st)))"
    "well_shaped (replay_memory (memory (fst (snd ?st))))"
    by simp_all
  from h' ex rc ag show ?thesis by (intro conjI)
qed

text \<open>
  The claim as stated has no condition on \<open>batch_size\<close> or on the shapes.  Three
  coordinators built by the constructor, each passing the threshold with its first \<open>step\<close>
  and making one \<open>sample\<close> call, which raises ValueError, and no \<open>learn\<close> call: two
  agents with \<open>batch_size = 5\<close> and threshold 1; two agents with \<open>batch_size = 0\<close> and
  threshold 1; and three agents with \<open>batch_size = 2\<close> and threshold 2 whose state vectors
  have the lengths 1, 2 and 3.
\<close>

theorem step_learning_iterations_counterexample:
  "MADDPG_init counting_agent counter_random 2 1 1 (Some 0) 10 5 99 1 0
       (start :: (nat, (nat, nat) call) process) = (Inr (coordinator 2 10 5 1 []), start) \<and>
   step counting_agent counter_random small_floats (coordinator 2 10 5 1 [])
       [[7], [17]] [[8], [18]] [9, 19] [[70], [170]] [False, True] start =
     (Some ValueError,
      coordinator 2 10 5 1
        [\<lparr>state = [7], action = [8], reward = 9, next_state = [70], done_flag = False\<rparr>,
         \<lparr>state = [17], action = [18], reward = 19, next_state = [170], done_flag = True\<rparr>],
      start\<lparr>calls :=
        [Call_add \<lparr>state = [7], action = [8], reward = 9, next_state = [70], done_flag = False\<rparr>,
         Call_add \<lparr>state = [17], action = [18], reward = 19, next_state = [170],
                   done_flag = True\<rparr>,
         Call_sample (Inl ValueError)]\<rparr>) \<and>
   minsamples_before_train (coordinator 2 10 5 1 []) <
     len (memory (coordinator 2 10 5 1
        [\<lparr>state = [7], action = [8], reward = 9, next_state = [70], done_flag = False\<rparr>,
         \<lparr>state = [17], action = [18], reward = 19, next_state = [170], done_flag = True\<rparr>])) \<and>
   MADDPG_init counting_agent counter_random 2 1 1 (Some 0) 10 0 99 1 0
       (start :: (nat, (nat, nat) call) process) = (Inr (coordinator 2 10 0 1 []), start) \<and>
   step counting_agent counter_random small_floats (coordinator 2 10 0 1 [])
       [[7], [17]] [[8], [18]] [9, 19] [[70], [170]] [False, True] start =
     (Some ValueError,
      coordinator 2 10 0 1
        [\<lparr>state = [7], action = [8], reward = 9, next_state = [70], done_flag = False\<rparr>,
         \<lparr>state = [17], action = [18], reward = 19, next_state = [170], done_flag = True\<rparr>],
      start\<lparr>calls :=
        [Call_add \<lparr>state = [7], action = [8], reward = 9, next_state = [70], done_flag = False\<rparr>,
         Call_add \<lparr>state = [17], action = [18], reward = 19, next_state = [170],
                   done_flag = True\<rparr>,
         Call_sample (Inl ValueError)]\<rparr>) \<and>
   minsamples_before_train (coordinator 2 10 0 1 []) <
     len (memory (coordinator 2 10 0 1
        [\<lparr>state = [7], action = [8], reward = 9, next_state = [70], done_flag = False\<rparr>,
         \<lparr>state = [17], action = [18], reward = 19, next_state = [170], done_flag = True\<rparr>])) \<and>
   MADDPG_init counting_agent counter_random 3 1 1 (Some 0) 10 2 99 2 0
       (start :: (nat, (nat, nat) call) process) = (Inr (coordinator 3 10 2 2 []), start) \<and>
   fst (step counting_agent counter_random small_floats (coordinator 3 10 2 2 [])
       [[5], [5, 6], [5, 6, 7]] [[8], [8], [8]] [9, 9, 9] [[5], [5, 6], [5, 6, 7]]
       [False, False, False] start) = Some ValueError \<and>
   calls (snd (snd (step counting_agent counter_random small_floats (coordinator 3 10 2 2 [])
       [[5], [5, 6], [5, 6, 7]] [[8], [8], [8]] [9, 9, 9] [[5], [5, 6], [5, 6, 7]]
       [False, False, False] start))) =
     [Call_add \<lparr>state = [5], action = [8], reward = 9, next_state = [5], done_flag = False\<rparr>,
      Call_add \<lparr>state = [5, 6], action = [8], reward = 9, next_state = [5, 6],
                done_flag = False\<rparr>,
      Call_add \<lparr>state = [5, 6, 7], action = [8], reward = 9, next_state = [5, 6, 7],
                done_flag = False\<rparr>,
      Call_sample (Inl ValueError)] \<and>
   minsamples_before_train (coordinator 3 10 2 2 []) <
     len (memory (fst (snd (step counting_agent counter_random small_floats
       (coordinator 3 10 2 2 [])
       [[5], [5, 6], [5, 6, 7]] [[8], [8], [8]] [9, 9, 9] [[5], [5, 6], [5, 6, 7]]
       [False, False, False] start))))"
proof -
  have a: "MADDPG_init counting_agent counter_random 2 1 1 (Some 0) 10 5 99 1 0
       (start :: (nat, (nat, nat) call) process) = (Inr (coordinator 2 10 5 1 []), start)"
    "step counting_agent counter_random small_floats (coordinator 2 10 5 1 [])
       [[7], [17]] [[8], [18]] [9, 19] [[70], [170]] [False, True] start =
     (Some ValueError,
      coordinator 2 10 5 1
        [\<lparr>state = [7], action = [8], reward = 9, next_state = [70], done_flag = False\<rparr>,
         \<lparr>state = [17], action = [18], reward = 19, next_state = [170], done_flag = True\<rparr>],
      start\<lparr>calls :=
        [Call_add \<lparr>state = [7], action = [8], reward = 9, next_state = [70], done_flag = False\<rparr>,
         Call_add \<lparr>state = [17], action = [18], reward = 19, next_state = [170],
                   done_flag = True\<rparr>,
         Call_sample (Inl ValueError)]\<rparr>)"
    "minsamples_before_train (coordinator 2 10 5 1 []) <
     len (memory (coordinator 2 10 5 1
        [\<lparr>state = [7], action = [8], reward = 9, next_state = [70], done_flag = False\<rparr>,
         \<lparr>state = [17], action = [18], reward = 19, next_state = [170], done_flag = True\<rparr>]))"
    by code_simp+
  have b: "MADDPG_init counting_agent counter_random 2 1 1 (Some 0) 10 0 99 1 0
       (start :: (nat, (nat, nat) call) process) = (Inr (coordinator 2 10 0 1 []), start)"
    "step counting_agent counter_random small_floats (coordinator 2 10 0 1 [])
       [[7], [17]] [[8], [18]] [9, 19] [[70], [170]] [False, True] start =
     (Some ValueError,
      coordinator 2 10 0 1
        [\<lparr>state = [7], action = [8], reward = 9, next_state = [70], done_flag = False\<rparr>,
         \<lparr>state = [17], action = [18], reward = 19, next_state = [170], done_flag = True\<rparr>],
      start\<lparr>calls :=
        [Call_add \<lparr>state = [7], action = [8], reward = 9, next_state = [70], done_flag = False\<rparr>,
         Call_add \<lparr>state = [17], action = [18], reward = 19, next_state = [170],
                   done_flag = True\<rparr>,
         Call_sample (Inl ValueError)]\<rparr>)"
    "minsamples_before_train (coordinator 2 10 0 1 []) <
     len (memory (coordinator 2 10 0 1
        [\<lparr>state = [7], action = [8], reward = 9, next_state = [70], done_flag = False\<rparr>,
         \<lparr>state = [17], action = [18], reward = 19, next_state = [170], done_flag = True\<rparr>]))"
    by code_simp+
  have c: "MADDPG_init counting_agent counter_random 3 1 1 (Some 0) 10 2 99 2 0
       (start :: (nat, (nat, nat) call) process) = (Inr (coordinator 3 10 2 2 []), start)"
    "fst (step counting_agent counter_random small_floats (coordinator 3 10 2 2 [])
       [[5], [5, 6], [5, 6, 7]] [[8], [8], [8]] [9, 9, 9] [[5], [5, 6], [5, 6, 7]]
       [False, False, False] start) = Some ValueError"
    "calls (snd (snd (step counting_agent counter_random small_floats (coordinator 3 10 2 2 [])
       [[5], [5, 6], [5, 6, 7]] [[8], [8], [8]] [9, 9, 9] [[5], [5, 6], [5, 6, 7]]
       [False, False, False] start))) =
     [Call_add \<lparr>state = [5], action = [8], reward = 9, next_state = [5], done_flag = False\<rparr>,
      Call_add \<lparr>state = [5, 6], action = [8], reward = 9, next_state = [5, 6],
                done_flag = False\<rparr>,
      Call_add \<lparr>state = [5, 6, 7], action = [8], reward = 9, next_state = [5, 6, 7],
                done_flag = False\<rparr>,
      Call_sample (Inl ValueError)]"
    "minsamples_before_train (coordinator 3 10 2 2 []) <
     len (memory (fst (snd (step counting_agent counter_random small_floats
       (coordinator 3 10 2 2 [])
       [[5], [5, 6], [5, 6, 7]] [[8], [8], [8]] [9, 9, 9] [[5], [5, 6], [5, 6, 7]]
       [False, False, False] start))))"
    by code_simp+
  from a b c show ?thesis by (intro conjI)
qed

section \<open>The generator behind sample\<close>

text \<open>
  C8, as amended.  \<open>sample\<close> draws from the generator shared by the whole process, which
  the constructor of the buffer seeds.  Two buffers constructed with the same integer seed
  and the same parameters, in whatever state the process was before, and each then given
  the same sequence of \<open>add\<close> and \<open>sample\<close> calls with no other use of the generator in
  between, return the same sequence of \<open>sample\<close> results.
\<close>

theorem seeded_buffer_alone_reproducible:
  assumes "ReplayBuffer_init R asz buffer_size bsz (Some s) entropy1 w1 = (Inr rb1, w1')"
    and "ReplayBuffer_init R asz buffer_size bsz (Some s) entropy2 w2 = (Inr rb2, w2')"
  shows "fst (run_calls R T cs rb1 w1') = fst (run_calls R T cs rb2 w2')"
proof -
  from assms have "rb1 = rb2" "random_state w1' = random_state w2'"
    by (auto simp: ReplayBuffer_init_def Let_def random_seed_def split: if_splits)
  then show ?thesis using run_calls_random_state[of w1' w2' R T cs rb2] by simp
qed

text \<open>
  Two processes that differ in generator state and log; both buffers are constructed with
  seed 1.
\<close>

theorem seeded_buffer_alone_reproducible_witness:
  "ReplayBuffer_init counter_random 1 5 1 (Some 1) 0 (start :: (nat, unit) process) =
     (Inr (buffer_with 5 1 []), \<lparr>random_state = 1, calls = []\<rparr>) \<and>
   ReplayBuffer_init counter_random 1 5 1 (Some 1) 7 \<lparr>random_state = 42, calls = [()]\<rparr> =
     (Inr (buffer_with 5 1 []), \<lparr>random_state = 1, calls = [()]\<rparr>) \<and>
   fst (run_calls counter_random small_floats
          [Do_add [1] [1] 1 [1] False, Do_add [2] [2] 2 [2] False, Do_add [3] [3] 3 [3] True,
           Do_sample, Do_sample]
          (buffer_with 5 1 []) \<lparr>random_state = 1, calls = ([] :: unit list)\<rparr>) =
     [Inr ([[2]], [[2]], [[2]], [[2]], [[0]]), Inr ([[3]], [[3]], [[3]], [[3]], [[1]])] \<and>
   fst (run_calls counter_random small_floats
          [Do_add [1] [1] 1 [1] False, Do_add [2] [2] 2 [2] False, Do_add [3] [3] 3 [3] True,
           Do_sample, Do_sample]
          (buffer_with 5 1 []) \<lparr>random_state = 1, calls = [()]\<rparr>) =
     [Inr ([[2]], [[2]], [[2]], [[2]], [[0]]), Inr ([[3]], [[3]], [[3]], [[3]], [[1]])]"
proof -
  have i1: "ReplayBuffer_init counter_random 1 5 1 (Some 1) 0 (start :: (nat, unit) process) =
     (Inr (buffer_with 5 1 []), \<lparr>random_state = 1, calls = []\<rparr>)"
    by code_simp
  have i2: "ReplayBuffer_init counter_random 1 5 1 (Some 1) 7
       \<lparr>random_state = 42, calls = [()]\<rparr> =
     (Inr (buffer_with 5 1 []), \<lparr>random_state = 1, calls = [()]\<rparr>)"
    by code_simp
  have r: "fst (run_calls counter_random small_floats
          [Do_add [1] [1] 1 [1] False, Do_add [2] [2] 2 [2] False, Do_add [3] [3] 3 [3] True,
           Do_sample, Do_sample]
          (buffer_with 5 1 []) \<lparr>random_state = 1, calls = ([] :: unit list)\<rparr>) =
     [Inr ([[2]], [[2]], [[2]], [[2]], [[0]]), Inr ([[3]], [[3]], [[3]], [[3]], [[1]])]"
    by code_simp
  from seeded_buffer_alone_reproducible[OF i1 i2, of small_floats
      "[Do_add [1] [1] 1 [1] False, Do_add [2] [2] 2 [2] False, Do_add [3] [3] 3 [3] True,
        Do_sample, Do_sample]"]
  have "fst (run_calls counter_random small_floats
          [Do_add [1] [1] 1 [1] False, Do_add [2] [2] 2 [2] False, Do_add [3] [3] 3 [3] True,
           Do_sample, Do_sample]
          (buffer_with 5 1 []) \<lparr>random_state = 1, calls = [()]\<rparr>) =
     [Inr ([[2]], [[2]], [[2]], [[2]], [[0]]), Inr ([[3]], [[3]], [[3]], [[3]], [[1]])]"
    using r by simp
  with i1 i2 r show ?thesis by blast
qed

text \<open>
  The generator is not private to a buffer.  Two buffers are constructed in one process
  with the same seed and receive the same three experiences; the first \<open>sample\<close> of one
  buffer and the first \<open>sample\<close> of the other return different batches, because the second
  call continues the stream the first call advanced.
\<close>

theorem shared_generator_counterexample:
  "two_buffers = (Inr ([[1]], [[1]], [[1]], [[1]], [[0]]), Inr ([[2]], [[2]], [[2]], [[2]], [[0]])) \<and>
   fst two_buffers \<noteq> snd two_buffers"
proof -
  have e: "two_buffers =
      (Inr ([[1]], [[1]], [[1]], [[1]], [[0]]), Inr ([[2]], [[2]], [[2]], [[2]], [[0]]))"
    by code_simp
  show ?thesis unfolding e by simp
qed

end
